theory Spec2Isabelle
  imports Complex_Main "HOL-Library.Word"
begin

section \<open>Ray tracing through a layered sound velocity profile\<close>

text \<open>
  A shallow embedding of \<^verbatim>\<open>src/georeferencing/Raytracing.hpp\<close> (class Raytracing).

  \<^item> A \<^verbatim>\<open>double\<close> is a \<^typ>\<open>real\<close>: \<^verbatim>\<open>sqrt\<close>, \<^verbatim>\<open>log\<close>, \<^verbatim>\<open>asin\<close>, \<^verbatim>\<open>cos\<close>, \<^verbatim>\<open>abs\<close>
    and \<^verbatim>\<open>pow(x, 2)\<close> are the real functions (the unqualified \<^verbatim>\<open>abs\<close> is read as the
    absolute value of a double). Rounding, infinities and NaN are outside the model:
    where a propagation formula divides by zero or leaves the domain of a square root or
    a logarithm, the value computed here is HOL's and not the machine's, and the theorems
    below either do not depend on that value or exclude the case by a hypothesis.
  \<^item> The two divisions of launchVectorParameters are guarded in the source. They are
    written with \<open>divide_double\<close>, for which a quotient by zero (an infinity or NaN on the
    machine, no real) is the outcome \<open>DivisionByZero\<close>, so that the guard decides what the
    function returns.
  \<^item> An \<^verbatim>\<open>unsigned int\<close> is a \<^typ>\<open>32 word\<close>: the layer indices are declared so, and the
    size they are compared with is taken to be one too, so that \<^verbatim>\<open>svp.getSize()-1\<close> wraps
    around for an empty profile.
  \<^item> An \<^verbatim>\<open>Eigen::VectorXd\<close> is a list of reals. Reading a coefficient outside the vector
    (an assertion failure or undefined behaviour in Eigen) is the error
    \<open>IndexOutOfRange\<close>.
  \<^item> \<^verbatim>\<open>throw std::invalid_argument\<close> is the error \<open>InvalidArgument z0 z1\<close>, carrying the
    two depths the message prints.
  \<^item> The classes Ping and SoundVelocityProfile and CoordinateTransform::sonar2cartesian
    are not part of the sources at hand. Ping and SoundVelocityProfile are records of what
    their accessors return; sonar2cartesian is a parameter \<open>s2c\<close> of the functions that
    call it.
\<close>

subsection \<open>Data\<close>

type_synonym Vector2d = "real \<times> real"
type_synonym Vector3d = "real \<times> real \<times> real"
type_synonym Matrix3d = "Vector3d \<times> Vector3d \<times> Vector3d"

datatype error = InvalidArgument real real | IndexOutOfRange | DivisionByZero

record Ping =
  getAlongTrackAngle :: real
  getAcrossTrackAngle :: real
  getTwoWayTravelTime :: real
  getSurfaceSoundSpeed :: real
  getTransducerDepth :: real

record SoundVelocityProfile =
  getDepths :: "real list"
  getSpeeds :: "real list"
  getSoundSpeedGradient :: "real list"
  getSize :: "32 word"
  getLayerIndexForDepth :: "real \<Rightarrow> 32 word"

text \<open>
  The locals that live across the layer walk. \<^verbatim>\<open>currentLayerDeltaZ\<close> and
  \<^verbatim>\<open>currentLayerDeltaR\<close> are written by each layer step before they are read, so they
  are results of the steps and not part of the state.
\<close>

record RayState =
  currentLayerIndex :: "32 word"
  currentLayerRaytraceTime :: real
  cumulativeRaytraceTime :: real
  cumulativeRayX :: real
  cumulativeRayZ :: real

subsection \<open>Eigen: coefficient access, matrix product, normalisation\<close>

definition coeff :: "real list \<Rightarrow> 32 word \<Rightarrow> error + real" where
  "coeff v i = (if unat i < length v then Inr (v ! unat i) else Inl IndexOutOfRange)"

definition matVec :: "Matrix3d \<Rightarrow> Vector3d \<Rightarrow> Vector3d" where
  "matVec m v =
     (case m of ((a11, a12, a13), (a21, a22, a23), (a31, a32, a33)) \<Rightarrow>
      case v of (x, y, z) \<Rightarrow>
        (a11 * x + a12 * y + a13 * z,
         a21 * x + a22 * y + a23 * z,
         a31 * x + a32 * y + a33 * z))"

text \<open>Eigen's \<^verbatim>\<open>normalize()\<close> divides by the norm when the squared norm is positive.\<close>

definition normalize :: "Vector3d \<Rightarrow> Vector3d" where
  "normalize v =
     (case v of (x, y, z) \<Rightarrow>
        let n2 = x\<^sup>2 + y\<^sup>2 + z\<^sup>2
        in if 0 < n2 then (x / sqrt n2, y / sqrt n2, z / sqrt n2) else v)"

text \<open>The quotient of two doubles, where a division by zero has to be seen.\<close>

definition divide_double :: "real \<Rightarrow> real \<Rightarrow> error + real" where
  "divide_double x y = (if y = 0 then Inl DivisionByZero else Inr (x / y))"

subsection \<open>The static helpers of class Raytracing\<close>

definition gradientEpsilon :: real where
  "gradientEpsilon = 1 / 1000000"

text \<open>Each propagation returns \<open>(deltaZ, deltaR, deltaTravelTime)\<close>, its reference parameters.\<close>

definition constantCelerityRayTracing ::
  "real \<Rightarrow> real \<Rightarrow> real \<Rightarrow> real \<Rightarrow> real \<times> real \<times> real" where
  "constantCelerityRayTracing z0 z1 c snellConstant =
     (let cosBn = snellConstant * c;
          sinBn = sqrt (1 - cosBn\<^sup>2);
          deltaZ = z1 - z0;
          deltaTravelTime = deltaZ / (c * sinBn);
          deltaR = cosBn * deltaTravelTime * c
      in (deltaZ, deltaR, deltaTravelTime))"

text \<open>Returns \<open>(deltaZ, deltaR)\<close>.\<close>

definition lastLayerPropagation :: "real \<Rightarrow> real \<Rightarrow> real \<Rightarrow> real \<times> real" where
  "lastLayerPropagation lastLayerTraveTime c_lastLayer snellConstant =
     (let cosBn = snellConstant * c_lastLayer;
          sinBn = sqrt (1 - cosBn\<^sup>2);
          deltaR = c_lastLayer * lastLayerTraveTime * cosBn;
          deltaZ = c_lastLayer * lastLayerTraveTime * sinBn
      in (deltaZ, deltaR))"

definition constantGradientRayTracing ::
  "real \<Rightarrow> real \<Rightarrow> real \<Rightarrow> real \<Rightarrow> real \<times> real \<times> real" where
  "constantGradientRayTracing c0 c1 gradient snellConstant =
     (let cosBnm1 = snellConstant * c0;
          cosBn = snellConstant * c1;
          sinBnm1 = sqrt (1 - cosBnm1\<^sup>2);
          sinBn = sqrt (1 - cosBn\<^sup>2);
          radiusOfCurvature = 1 / (snellConstant * gradient);
          deltaTravelTime =
            \<bar>(1 / \<bar>gradient\<bar>) * ln ((c1 / c0) * ((1 + sinBnm1) / (1 + sinBn)))\<bar>;
          deltaZ = radiusOfCurvature * (cosBn - cosBnm1);
          deltaR = radiusOfCurvature * (sinBnm1 - sinBn)
      in (deltaZ, deltaR, deltaTravelTime))"

definition soundSpeedGradient :: "real \<Rightarrow> real \<Rightarrow> real \<Rightarrow> real \<Rightarrow> error + real" where
  "soundSpeedGradient z0 c0 z1 c1 =
     (if z1 = z0 then Inl (InvalidArgument z0 z1) else Inr ((c1 - c0) / (z1 - z0)))"

text \<open>The launch vector in the navigation frame (the local \<^verbatim>\<open>launchVectorNav\<close>).\<close>

definition launchVectorNav ::
  "(real \<Rightarrow> real \<Rightarrow> real \<Rightarrow> Vector3d) \<Rightarrow> Ping \<Rightarrow> Matrix3d \<Rightarrow> Matrix3d \<Rightarrow> Vector3d" where
  "launchVectorNav s2c ping boresightMatrix imu2nav =
     (let launchVectorSonar =
            normalize (s2c (getAlongTrackAngle ping) (getAcrossTrackAngle ping) 1)
      in matVec imu2nav (matVec boresightMatrix launchVectorSonar))"

text \<open>Returns \<open>(sinAz, cosAz, beta0)\<close>.\<close>

definition launchVectorParameters ::
  "(real \<Rightarrow> real \<Rightarrow> real \<Rightarrow> Vector3d) \<Rightarrow> Ping \<Rightarrow> Matrix3d \<Rightarrow> Matrix3d
     \<Rightarrow> error + real \<times> real \<times> real" where
  "launchVectorParameters s2c ping boresightMatrix imu2nav =
     (case launchVectorNav s2c ping boresightMatrix imu2nav of (v0, v1, v2) \<Rightarrow>
        let vNorm = sqrt (v0\<^sup>2 + v1\<^sup>2)
        in (case (if vNorm > 0 then divide_double v0 vNorm else Inr 0) of
              Inl e \<Rightarrow> Inl e
            | Inr sinAz \<Rightarrow>
           (case (if vNorm > 0 then divide_double v1 vNorm else Inr 0) of
              Inl e \<Rightarrow> Inl e
            | Inr cosAz \<Rightarrow>
                let beta0 = arcsin v2
                in Inr (sinAz, cosAz, beta0))))"

subsection \<open>The two layer steps shared by rayTrace and planarRayTrace\<close>

text \<open>
  Lines 121-143 and 260-282: the step from the transducer to the profile sample at the
  cutoff index. Lines 161-183 and 306-328: the step across the profile layer
  \<open>currentLayerIndex\<close>. Both functions of the source contain the same statements; each
  step returns \<open>(currentLayerDeltaZ, currentLayerDeltaR, currentLayerRaytraceTime)\<close>.
\<close>

definition transducerLayerStep ::
  "Ping \<Rightarrow> SoundVelocityProfile \<Rightarrow> real \<Rightarrow> 32 word \<Rightarrow> error + real \<times> real \<times> real" where
  "transducerLayerStep ping svp snellConstant svpCutoffIndex =
     (case coeff (getDepths svp) svpCutoffIndex of Inl e \<Rightarrow> Inl e | Inr zc \<Rightarrow>
     (case coeff (getSpeeds svp) svpCutoffIndex of Inl e \<Rightarrow> Inl e | Inr cc \<Rightarrow>
     (case soundSpeedGradient (getTransducerDepth ping) (getSurfaceSoundSpeed ping) zc cc of
        Inl e \<Rightarrow> Inl e
      | Inr gradientTransducerSvp \<Rightarrow>
          if \<bar>gradientTransducerSvp\<bar> < gradientEpsilon
          then Inr (constantCelerityRayTracing (getTransducerDepth ping) zc
                      (getSurfaceSoundSpeed ping) snellConstant)
          else Inr (constantGradientRayTracing (getSurfaceSoundSpeed ping) cc
                      gradientTransducerSvp snellConstant))))"

definition profileLayerStep ::
  "SoundVelocityProfile \<Rightarrow> real \<Rightarrow> 32 word \<Rightarrow> error + real \<times> real \<times> real" where
  "profileLayerStep svp snellConstant i =
     (case coeff (getSoundSpeedGradient svp) i of Inl e \<Rightarrow> Inl e | Inr g \<Rightarrow>
        if \<bar>g\<bar> < gradientEpsilon
        then (case coeff (getDepths svp) i of Inl e \<Rightarrow> Inl e | Inr z0 \<Rightarrow>
             (case coeff (getDepths svp) (i + 1) of Inl e \<Rightarrow> Inl e | Inr z1 \<Rightarrow>
             (case coeff (getSpeeds svp) i of Inl e \<Rightarrow> Inl e | Inr c \<Rightarrow>
                Inr (constantCelerityRayTracing z0 z1 c snellConstant))))
        else (case coeff (getSpeeds svp) i of Inl e \<Rightarrow> Inl e | Inr c0 \<Rightarrow>
             (case coeff (getSpeeds svp) (i + 1) of Inl e \<Rightarrow> Inl e | Inr c1 \<Rightarrow>
                Inr (constantGradientRayTracing c0 c1 g snellConstant))))"

subsection \<open>rayTrace\<close>

text \<open>Lines 116-155: the state before the layer walk.\<close>

definition rayTrace_transducerLayer ::
  "Ping \<Rightarrow> SoundVelocityProfile \<Rightarrow> real \<Rightarrow> real \<Rightarrow> error + RayState" where
  "rayTrace_transducerLayer ping svp snellConstant oneWayTravelTime =
     (let svpCutoffIndex = getLayerIndexForDepth svp (getTransducerDepth ping)
      in if svpCutoffIndex < getSize svp
         then (case transducerLayerStep ping svp snellConstant svpCutoffIndex of
                 Inl e \<Rightarrow> Inl e
               | Inr (dZ, dR, dT) \<Rightarrow>
                   if 0 + dT \<le> oneWayTravelTime
                   then Inr \<lparr>currentLayerIndex = svpCutoffIndex,
                             currentLayerRaytraceTime = dT,
                             cumulativeRaytraceTime = 0 + dT,
                             cumulativeRayX = 0 + dR,
                             cumulativeRayZ = 0 + dZ\<rparr>
                   else Inr \<lparr>currentLayerIndex = svpCutoffIndex,
                             currentLayerRaytraceTime = dT,
                             cumulativeRaytraceTime = 0,
                             cumulativeRayX = 0,
                             cumulativeRayZ = 0\<rparr>)
         else Inr \<lparr>currentLayerIndex = svpCutoffIndex,
                   currentLayerRaytraceTime = 0,
                   cumulativeRaytraceTime = 0,
                   cumulativeRayX = 0,
                   cumulativeRayZ = 0\<rparr>)"

text \<open>Lines 157-195: the while loop; the result is the state at loop exit.\<close>

function rayTrace_loop ::
  "SoundVelocityProfile \<Rightarrow> real \<Rightarrow> real \<Rightarrow> RayState \<Rightarrow> error + RayState" where
  "rayTrace_loop svp snellConstant oneWayTravelTime s =
     (if cumulativeRaytraceTime s + currentLayerRaytraceTime s \<le> oneWayTravelTime
         \<and> currentLayerIndex s < getSize svp - 1
      then (case profileLayerStep svp snellConstant (currentLayerIndex s) of
              Inl e \<Rightarrow> Inl e
            | Inr (dZ, dR, dT) \<Rightarrow>
                if cumulativeRaytraceTime s + dT \<le> oneWayTravelTime
                then rayTrace_loop svp snellConstant oneWayTravelTime
                       \<lparr>currentLayerIndex = currentLayerIndex s + 1,
                        currentLayerRaytraceTime = dT,
                        cumulativeRaytraceTime = cumulativeRaytraceTime s + dT,
                        cumulativeRayX = cumulativeRayX s + dR,
                        cumulativeRayZ = cumulativeRayZ s + dZ\<rparr>
                else Inr (s\<lparr>currentLayerRaytraceTime := dT\<rparr>))
      else Inr s)"
  by pat_completeness auto

lemma word_succ_unat:
  fixes i m :: "32 word"
  assumes "i < m"
  shows "unat (i + 1) = Suc (unat i)"
proof -
  have "unat i < unat m"
    using assms by (simp add: word_less_nat_alt)
  moreover have "unat m < 2 ^ 32"
    using unsigned_less [of m] by simp
  ultimately have "unat i + unat (1 :: 32 word) < 2 ^ LENGTH(32)"
    by simp
  then have "unat (i + 1) = unat i + unat (1 :: 32 word)"
    by (simp only: unat_add_lem)
  then show ?thesis
    by simp
qed

lemma word_index_advance:
  fixes i m :: "32 word"
  assumes "i < m"
  shows "unat m - unat (i + 1) < unat m - unat i"
proof -
  have "unat i < unat m"
    using assms by (simp add: word_less_nat_alt)
  then show ?thesis
    by (simp add: word_succ_unat [OF assms])
qed

termination rayTrace_loop
  by (relation "measure (\<lambda>(svp, p, t, s). unat (getSize svp - 1) - unat (currentLayerIndex s))")
     (auto simp: word_index_advance)

text \<open>The whole function; the result is \<^verbatim>\<open>raytracedPing\<close>.\<close>

definition rayTrace ::
  "(real \<Rightarrow> real \<Rightarrow> real \<Rightarrow> Vector3d) \<Rightarrow> Ping \<Rightarrow> SoundVelocityProfile \<Rightarrow> Matrix3d \<Rightarrow> Matrix3d
     \<Rightarrow> error + Vector3d" where
  "rayTrace s2c ping svp boresightMatrix imu2nav =
     (case launchVectorParameters s2c ping boresightMatrix imu2nav of
        Inl e \<Rightarrow> Inl e
      | Inr (sinAz, cosAz, beta0) \<Rightarrow>
      let oneWayTravelTime = getTwoWayTravelTime ping / 2;
          snellConstant = cos beta0 / getSurfaceSoundSpeed ping;
          svpCutoffIndex = getLayerIndexForDepth svp (getTransducerDepth ping)
      in (case rayTrace_transducerLayer ping svp snellConstant oneWayTravelTime of
           Inl e \<Rightarrow> Inl e
         | Inr s0 \<Rightarrow>
     (case rayTrace_loop svp snellConstant oneWayTravelTime s0 of
           Inl e \<Rightarrow> Inl e
         | Inr s \<Rightarrow>
     (case (if svpCutoffIndex < getSize svp
            then coeff (getSpeeds svp) (currentLayerIndex s)
            else Inr (getSurfaceSoundSpeed ping)) of
           Inl e \<Rightarrow> Inl e
         | Inr c_lastLayer \<Rightarrow>
      let lastLayerTraveTime = oneWayTravelTime - cumulativeRaytraceTime s
      in case lastLayerPropagation lastLayerTraveTime c_lastLayer snellConstant of
           (dzf, dxf) \<Rightarrow>
      let Xf = cumulativeRayX s + dxf;
          Zf = cumulativeRayZ s + dzf
      in Inr (Xf * sinAz, Xf * cosAz, Zf)))))"

subsection \<open>planarRayTrace\<close>

text \<open>
  The vectors \<^verbatim>\<open>layerRays\<close> and \<^verbatim>\<open>layerTravelTimes\<close> are reference parameters that the
  function appends to: the model takes them as they are at the call and returns them as
  they are at the return. A layer ray is the pair \<open>(deltaR, deltaZ)\<close>.
\<close>

type_synonym PlanarState = "RayState \<times> Vector2d list \<times> real list"

text \<open>Lines 255-300: the state before the layer walk.\<close>

definition planarRayTrace_transducerLayer ::
  "Ping \<Rightarrow> SoundVelocityProfile \<Rightarrow> real \<Rightarrow> real \<Rightarrow> Vector2d list \<Rightarrow> real list
     \<Rightarrow> error + PlanarState" where
  "planarRayTrace_transducerLayer ping svp snellConstant oneWayTravelTime
       layerRays layerTravelTimes =
     (let svpCutoffIndex = getLayerIndexForDepth svp (getTransducerDepth ping)
      in if svpCutoffIndex < getSize svp
         then (case transducerLayerStep ping svp snellConstant svpCutoffIndex of
                 Inl e \<Rightarrow> Inl e
               | Inr (dZ, dR, dT) \<Rightarrow>
                   if 0 + dT \<le> oneWayTravelTime
                   then Inr (\<lparr>currentLayerIndex = svpCutoffIndex,
                              currentLayerRaytraceTime = dT,
                              cumulativeRaytraceTime = 0 + dT,
                              cumulativeRayX = 0 + dR,
                              cumulativeRayZ = 0 + dZ\<rparr>,
                             layerRays @ [(dR, dZ)],
                             layerTravelTimes @ [dT])
                   else Inr (\<lparr>currentLayerIndex = svpCutoffIndex,
                              currentLayerRaytraceTime = dT,
                              cumulativeRaytraceTime = 0,
                              cumulativeRayX = 0,
                              cumulativeRayZ = 0\<rparr>,
                             layerRays, layerTravelTimes))
         else Inr (\<lparr>currentLayerIndex = svpCutoffIndex,
                    currentLayerRaytraceTime = 0,
                    cumulativeRaytraceTime = 0,
                    cumulativeRayX = 0,
                    cumulativeRayZ = 0\<rparr>,
                   layerRays, layerTravelTimes))"

text \<open>Lines 302-346: the while loop.\<close>

function planarRayTrace_loop ::
  "SoundVelocityProfile \<Rightarrow> real \<Rightarrow> real \<Rightarrow> RayState \<Rightarrow> Vector2d list \<Rightarrow> real list
     \<Rightarrow> error + PlanarState" where
  "planarRayTrace_loop svp snellConstant oneWayTravelTime s layerRays layerTravelTimes =
     (if cumulativeRaytraceTime s + currentLayerRaytraceTime s \<le> oneWayTravelTime
         \<and> currentLayerIndex s < getSize svp - 1
      then (case profileLayerStep svp snellConstant (currentLayerIndex s) of
              Inl e \<Rightarrow> Inl e
            | Inr (dZ, dR, dT) \<Rightarrow>
                if cumulativeRaytraceTime s + dT \<le> oneWayTravelTime
                then planarRayTrace_loop svp snellConstant oneWayTravelTime
                       \<lparr>currentLayerIndex = currentLayerIndex s + 1,
                        currentLayerRaytraceTime = dT,
                        cumulativeRaytraceTime = cumulativeRaytraceTime s + dT,
                        cumulativeRayX = cumulativeRayX s + dR,
                        cumulativeRayZ = cumulativeRayZ s + dZ\<rparr>
                       (layerRays @ [(dR, dZ)])
                       (layerTravelTimes @ [dT])
                else Inr (s\<lparr>currentLayerRaytraceTime := dT\<rparr>, layerRays, layerTravelTimes))
      else Inr (s, layerRays, layerTravelTimes))"
  by pat_completeness auto

termination planarRayTrace_loop
  by (relation "measure (\<lambda>(svp, p, t, s, rs, ts).
                  unat (getSize svp - 1) - unat (currentLayerIndex s))")
     (auto simp: word_index_advance)

text \<open>
  The whole function; the result is \<^verbatim>\<open>raytracedPing\<close> with the two vectors as they are
  at the return.
\<close>

definition planarRayTrace ::
  "(real \<Rightarrow> real \<Rightarrow> real \<Rightarrow> Vector3d) \<Rightarrow> Ping \<Rightarrow> SoundVelocityProfile \<Rightarrow> Matrix3d \<Rightarrow> Matrix3d
     \<Rightarrow> Vector2d list \<Rightarrow> real list \<Rightarrow> error + Vector2d \<times> Vector2d list \<times> real list" where
  "planarRayTrace s2c ping svp boresightMatrix imu2nav layerRays layerTravelTimes =
     (case launchVectorParameters s2c ping boresightMatrix imu2nav of
        Inl e \<Rightarrow> Inl e
      | Inr (sinAz, cosAz, beta0) \<Rightarrow>
      let oneWayTravelTime = getTwoWayTravelTime ping / 2;
          snellConstant = cos beta0 / getSurfaceSoundSpeed ping;
          svpCutoffIndex = getLayerIndexForDepth svp (getTransducerDepth ping)
      in (case planarRayTrace_transducerLayer ping svp snellConstant oneWayTravelTime
                layerRays layerTravelTimes of
           Inl e \<Rightarrow> Inl e
         | Inr (s0, rays0, times0) \<Rightarrow>
     (case planarRayTrace_loop svp snellConstant oneWayTravelTime s0 rays0 times0 of
           Inl e \<Rightarrow> Inl e
         | Inr (s, rays1, times1) \<Rightarrow>
     (case (if svpCutoffIndex < getSize svp
            then coeff (getSpeeds svp) (currentLayerIndex s)
            else Inr (getSurfaceSoundSpeed ping)) of
           Inl e \<Rightarrow> Inl e
         | Inr c_lastLayer \<Rightarrow>
      let lastLayerTraveTime = oneWayTravelTime - cumulativeRaytraceTime s
      in case lastLayerPropagation lastLayerTraveTime c_lastLayer snellConstant of
           (dzf, dxf) \<Rightarrow>
      let Xf = cumulativeRayX s + dxf;
          Zf = cumulativeRayZ s + dzf
      in Inr ((Xf, Zf), rays1 @ [(dxf, dzf)], times1 @ [lastLayerTraveTime])))))"

subsection \<open>Counting the iterations of the layer walk\<close>

text \<open>
  The number of times the body of each while loop is entered, along the same guard,
  the same layer step and the same commit test as the loop itself. An iteration that
  fails on a coefficient access or leaves through \<^verbatim>\<open>break\<close> counts as one.
\<close>

function rayTrace_loop_iterations ::
  "SoundVelocityProfile \<Rightarrow> real \<Rightarrow> real \<Rightarrow> RayState \<Rightarrow> nat" where
  "rayTrace_loop_iterations svp snellConstant oneWayTravelTime s =
     (if cumulativeRaytraceTime s + currentLayerRaytraceTime s \<le> oneWayTravelTime
         \<and> currentLayerIndex s < getSize svp - 1
      then (case profileLayerStep svp snellConstant (currentLayerIndex s) of
              Inl e \<Rightarrow> 1
            | Inr (dZ, dR, dT) \<Rightarrow>
                if cumulativeRaytraceTime s + dT \<le> oneWayTravelTime
                then 1 + rayTrace_loop_iterations svp snellConstant oneWayTravelTime
                       \<lparr>currentLayerIndex = currentLayerIndex s + 1,
                        currentLayerRaytraceTime = dT,
                        cumulativeRaytraceTime = cumulativeRaytraceTime s + dT,
                        cumulativeRayX = cumulativeRayX s + dR,
                        cumulativeRayZ = cumulativeRayZ s + dZ\<rparr>
                else 1)
      else 0)"
  by pat_completeness auto

termination rayTrace_loop_iterations
  by (relation "measure (\<lambda>(svp, p, t, s). unat (getSize svp - 1) - unat (currentLayerIndex s))")
     (auto simp: word_index_advance)

function planarRayTrace_loop_iterations ::
  "SoundVelocityProfile \<Rightarrow> real \<Rightarrow> real \<Rightarrow> RayState \<Rightarrow> Vector2d list \<Rightarrow> real list \<Rightarrow> nat" where
  "planarRayTrace_loop_iterations svp snellConstant oneWayTravelTime s
       layerRays layerTravelTimes =
     (if cumulativeRaytraceTime s + currentLayerRaytraceTime s \<le> oneWayTravelTime
         \<and> currentLayerIndex s < getSize svp - 1
      then (case profileLayerStep svp snellConstant (currentLayerIndex s) of
              Inl e \<Rightarrow> 1
            | Inr (dZ, dR, dT) \<Rightarrow>
                if cumulativeRaytraceTime s + dT \<le> oneWayTravelTime
                then 1 + planarRayTrace_loop_iterations svp snellConstant oneWayTravelTime
                       \<lparr>currentLayerIndex = currentLayerIndex s + 1,
                        currentLayerRaytraceTime = dT,
                        cumulativeRaytraceTime = cumulativeRaytraceTime s + dT,
                        cumulativeRayX = cumulativeRayX s + dR,
                        cumulativeRayZ = cumulativeRayZ s + dZ\<rparr>
                       (layerRays @ [(dR, dZ)])
                       (layerTravelTimes @ [dT])
                else 1)
      else 0)"
  by pat_completeness auto

termination planarRayTrace_loop_iterations
  by (relation "measure (\<lambda>(svp, p, t, s, rs, ts).
                  unat (getSize svp - 1) - unat (currentLayerIndex s))")
     (auto simp: word_index_advance)

subsection \<open>Concrete inputs\<close>

text \<open>
  An instance of the parameter \<open>s2c\<close>: the sonar frame's z axis scaled by the range, which
  is where a nadir beam points. The rotation \<open>tiltMatrix\<close> about the y axis then takes it
  to the launch vector \<open>(3/5, 0, 4/5)\<close>, a grazing angle of \<open>arcsin (4/5)\<close>.
\<close>

definition example_s2c :: "real \<Rightarrow> real \<Rightarrow> real \<Rightarrow> Vector3d" where
  "example_s2c alongTrackAngle acrossTrackAngle r = (0, 0, r)"

definition identityMatrix :: Matrix3d where
  "identityMatrix = ((1, 0, 0), (0, 1, 0), (0, 0, 1))"

definition tiltMatrix :: Matrix3d where
  "tiltMatrix = ((4 / 5, 0, 3 / 5), (0, 1, 0), (- 3 / 5, 0, 4 / 5))"

definition example_ping :: "real \<Rightarrow> real \<Rightarrow> Ping" where
  "example_ping transducerDepth twoWayTravelTime =
     \<lparr>getAlongTrackAngle = 0, getAcrossTrackAngle = 0,
      getTwoWayTravelTime = twoWayTravelTime,
      getSurfaceSoundSpeed = 1500, getTransducerDepth = transducerDepth\<rparr>"

text \<open>
  A profile of three samples at 12 m, 24 m and 36 m with 1500 m/s throughout. Its lookup
  returns the index of the first sample at or below the depth, and 3 (the size) below
  the last sample.
\<close>

definition example_lookup :: "real \<Rightarrow> 32 word" where
  "example_lookup d = (if d \<le> 12 then 0 else if d \<le> 24 then 1 else if d \<le> 36 then 2 else 3)"

definition example_svp :: SoundVelocityProfile where
  "example_svp =
     \<lparr>getDepths = [12, 24, 36], getSpeeds = [1500, 1500, 1500],
      getSoundSpeedGradient = [0, 0], getSize = 3,
      getLayerIndexForDepth = example_lookup\<rparr>"

text \<open>
  A profile whose vectors have the sizes its accessor reports: at least one sample, a
  depth and a speed for each sample, a gradient for each interval between two samples.
\<close>

definition svp_consistent :: "SoundVelocityProfile \<Rightarrow> bool" where
  "svp_consistent svp \<longleftrightarrow>
     getSize svp \<noteq> 0
     \<and> length (getDepths svp) = unat (getSize svp)
     \<and> length (getSpeeds svp) = unat (getSize svp)
     \<and> length (getSoundSpeedGradient svp) = unat (getSize svp) - 1"

text \<open>
  An orientation matrix is a rotation: its columns are orthonormal.
\<close>

definition orthogonalMatrix :: "Matrix3d \<Rightarrow> bool" where
  "orthogonalMatrix m =
     (case m of ((a11, a12, a13), (a21, a22, a23), (a31, a32, a33)) \<Rightarrow>
        a11\<^sup>2 + a21\<^sup>2 + a31\<^sup>2 = 1 \<and> a12\<^sup>2 + a22\<^sup>2 + a32\<^sup>2 = 1 \<and> a13\<^sup>2 + a23\<^sup>2 + a33\<^sup>2 = 1
        \<and> a11 * a12 + a21 * a22 + a31 * a32 = 0
        \<and> a11 * a13 + a21 * a23 + a31 * a33 = 0
        \<and> a12 * a13 + a22 * a23 + a32 * a33 = 0)"

text \<open>
  Modelled from the spec: the gradient vector of SoundVelocityProfile, a class that is
  not part of the sources, "a derived per-interval gradient
  (speed[i+1]-speed[i])/(depth[i+1]-depth[i])".
\<close>

fun derivedGradient :: "real list \<Rightarrow> real list \<Rightarrow> real list" where
  "derivedGradient (z0 # z1 # zs) (c0 # c1 # cs) =
     (c1 - c0) / (z1 - z0) # derivedGradient (z1 # zs) (c1 # cs)"
| "derivedGradient _ _ = []"

text \<open>
  A profile as the data model has it: vectors of the sizes it reports, depths strictly
  increasing, positive speeds, and the gradients derived from the samples.
\<close>

definition svp_physical :: "SoundVelocityProfile \<Rightarrow> bool" where
  "svp_physical svp \<longleftrightarrow>
     svp_consistent svp
     \<and> sorted_wrt (<) (getDepths svp)
     \<and> (\<forall>c \<in> set (getSpeeds svp). 0 < c)
     \<and> getSoundSpeedGradient svp = derivedGradient (getDepths svp) (getSpeeds svp)"

text \<open>
  A profile of 3000 m/s under a surface sound speed of 1500 m/s: with the launch vector
  \<open>(3/5, 0, 4/5)\<close> the Snell constant is 1/2500 and \<open>cosBn\<close> at the first sample is 6/5.
\<close>

definition fast_svp :: SoundVelocityProfile where
  "fast_svp =
     \<lparr>getDepths = [12, 24], getSpeeds = [3000, 3000],
      getSoundSpeedGradient = [0], getSize = 2,
      getLayerIndexForDepth = (\<lambda>d. if d \<le> 12 then 0 else if d \<le> 24 then 1 else 2)\<rparr>"

text \<open>
  A profile with two samples at 24 m; \<open>g\<close> is whatever gradient the profile reports for
  the interval between them.
\<close>

definition duplicate_svp :: "real \<Rightarrow> SoundVelocityProfile" where
  "duplicate_svp g =
     \<lparr>getDepths = [12, 24, 24, 36], getSpeeds = [1500, 1500, 1500, 1500],
      getSoundSpeedGradient = [0, g, 0], getSize = 4,
      getLayerIndexForDepth =
        (\<lambda>d. if d \<le> 12 then 0 else if d \<le> 24 then 1 else if d \<le> 36 then 3 else 4)\<rparr>"

text \<open>
  A profile that starts at 24 m: three samples at 24 m, 36 m and 48 m with 1500 m/s
  throughout, so that the step from a transducer at the surface to the first sample
  takes twice the time of a layer.
\<close>

definition deep_svp :: SoundVelocityProfile where
  "deep_svp =
     \<lparr>getDepths = [24, 36, 48], getSpeeds = [1500, 1500, 1500],
      getSoundSpeedGradient = [0, 0], getSize = 3,
      getLayerIndexForDepth =
        (\<lambda>d. if d \<le> 24 then 0 else if d \<le> 36 then 1 else if d \<le> 48 then 2 else 3)\<rparr>"

declare rayTrace_loop.simps [simp del]
declare planarRayTrace_loop.simps [simp del]
declare rayTrace_loop_iterations.simps [simp del]
declare planarRayTrace_loop_iterations.simps [simp del]

section \<open>Facts about the two traces\<close>

subsection \<open>The launch vector\<close>

lemma launchVectorParameters_value:
  assumes "launchVectorNav s2c ping boresightMatrix imu2nav = (v0, v1, v2)"
  shows "launchVectorParameters s2c ping boresightMatrix imu2nav
     = Inr (if 0 < sqrt (v0\<^sup>2 + v1\<^sup>2)
            then (v0 / sqrt (v0\<^sup>2 + v1\<^sup>2), v1 / sqrt (v0\<^sup>2 + v1\<^sup>2), arcsin v2)
            else (0, 0, arcsin v2))"
  using assms by (simp add: launchVectorParameters_def divide_double_def Let_def)

lemma launchVectorParameters_returns:
  "\<exists>sinAz cosAz beta0.
     launchVectorParameters s2c ping boresightMatrix imu2nav = Inr (sinAz, cosAz, beta0)"
proof -
  obtain v0 v1 v2 where "launchVectorNav s2c ping boresightMatrix imu2nav = (v0, v1, v2)"
    by (cases "launchVectorNav s2c ping boresightMatrix imu2nav") auto
  from launchVectorParameters_value [OF this] show ?thesis
    by (cases "0 < sqrt (v0\<^sup>2 + v1\<^sup>2)") simp_all
qed

subsection \<open>rayTrace against planarRayTrace\<close>

lemma planarRayTrace_loop_project:
  "rayTrace_loop svp p t s =
     (case planarRayTrace_loop svp p t s rs ts of
        Inl e \<Rightarrow> Inl e | Inr (s', rs', ts') \<Rightarrow> Inr s')"
proof (induction svp p t s rs ts rule: planarRayTrace_loop.induct)
  case (1 svp p t s rs ts)
  show ?case
  proof (cases "cumulativeRaytraceTime s + currentLayerRaytraceTime s \<le> t
         \<and> currentLayerIndex s < getSize svp - 1")
    case False
    then show ?thesis
      by (subst rayTrace_loop.simps, subst planarRayTrace_loop.simps) auto
  next
    case guard: True
    show ?thesis
    proof (cases "profileLayerStep svp p (currentLayerIndex s)")
      case (Inl e)
      with guard show ?thesis
        by (subst rayTrace_loop.simps, subst planarRayTrace_loop.simps) simp
    next
      case (Inr r)
      obtain dZ dR dT where r: "r = (dZ, dR, dT)"
        by (cases r) auto
      show ?thesis
      proof (cases "cumulativeRaytraceTime s + dT \<le> t")
        case False
        with guard Inr r show ?thesis
          by (subst rayTrace_loop.simps, subst planarRayTrace_loop.simps) simp
      next
        case commit: True
        note IH = "1.IH" [OF guard Inr [unfolded r] refl refl commit]
        from guard Inr r commit show ?thesis
          by (subst rayTrace_loop.simps, subst planarRayTrace_loop.simps) (simp add: IH)
      qed
    qed
  qed
qed

lemma planarRayTrace_transducerLayer_project:
  "rayTrace_transducerLayer ping svp p t
     = (case planarRayTrace_transducerLayer ping svp p t rs ts of
          Inl e \<Rightarrow> Inl e | Inr (s', rs', ts') \<Rightarrow> Inr s')"
  by (simp add: rayTrace_transducerLayer_def planarRayTrace_transducerLayer_def Let_def
      split: sum.splits prod.splits)

text \<open>rayTrace is planarRayTrace with the range turned into the azimuth.\<close>

lemma rayTrace_planarRayTrace:
  assumes "launchVectorParameters s2c ping boresightMatrix imu2nav = Inr (sinAz, cosAz, beta0)"
  shows "rayTrace s2c ping svp boresightMatrix imu2nav =
     (case planarRayTrace s2c ping svp boresightMatrix imu2nav layerRays layerTravelTimes of
        Inl e \<Rightarrow> Inl e
      | Inr ((Xf, Zf), rays', times') \<Rightarrow> Inr (Xf * sinAz, Xf * cosAz, Zf))"
proof -
  define T where "T = getTwoWayTravelTime ping / 2"
  define p where "p = cos beta0 / getSurfaceSoundSpeed ping"
  note tl = planarRayTrace_transducerLayer_project [of ping svp p T layerRays layerTravelTimes]
  show ?thesis
  proof (cases "planarRayTrace_transducerLayer ping svp p T layerRays layerTravelTimes")
    case (Inl e)
    with tl assms show ?thesis
      by (simp add: rayTrace_def planarRayTrace_def Let_def T_def p_def)
  next
    case (Inr r)
    obtain s0 rs0 ts0 where r: "r = (s0, rs0, ts0)"
      by (cases r) auto
    note lp = planarRayTrace_loop_project [of svp p T s0 rs0 ts0]
    show ?thesis
    proof (cases "planarRayTrace_loop svp p T s0 rs0 ts0")
      case (Inl e)
      with tl lp assms Inr r show ?thesis
        by (simp add: rayTrace_def planarRayTrace_def Let_def T_def p_def)
    next
      case lpr: (Inr r1)
      obtain s rs1 ts1 where r1: "r1 = (s, rs1, ts1)"
        by (cases r1) auto
      from tl lp assms Inr r lpr r1 show ?thesis
        by (simp add: rayTrace_def planarRayTrace_def Let_def T_def p_def
            split: sum.splits prod.splits)
    qed
  qed
qed

subsection \<open>What planarRayTrace appends\<close>

lemma planarRayTrace_loop_appends:
  assumes "planarRayTrace_loop svp p t s rs ts = Inr (s', rs', ts')"
  shows "\<exists>rs2 ts2. rs' = rs @ rs2 \<and> ts' = ts @ ts2 \<and> length rs2 = length ts2
           \<and> cumulativeRaytraceTime s' = cumulativeRaytraceTime s + sum_list ts2
           \<and> cumulativeRayX s' = cumulativeRayX s + sum_list (map fst rs2)
           \<and> cumulativeRayZ s' = cumulativeRayZ s + sum_list (map snd rs2)"
  using assms
proof (induction svp p t s rs ts rule: planarRayTrace_loop.induct)
  case (1 svp p t s rs ts)
  show ?case
  proof (cases "cumulativeRaytraceTime s + currentLayerRaytraceTime s \<le> t
         \<and> currentLayerIndex s < getSize svp - 1")
    case False
    with "1.prems" show ?thesis
      by (subst (asm) planarRayTrace_loop.simps) auto
  next
    case guard: True
    from "1.prems" guard obtain dZ dR dT where
      step: "profileLayerStep svp p (currentLayerIndex s) = Inr (dZ, dR, dT)"
      by (subst (asm) planarRayTrace_loop.simps) (auto split: sum.splits)
    show ?thesis
    proof (cases "cumulativeRaytraceTime s + dT \<le> t")
      case False
      with "1.prems" guard step show ?thesis
        by (subst (asm) planarRayTrace_loop.simps) auto
    next
      case commit: True
      let ?s1 = "\<lparr>currentLayerIndex = currentLayerIndex s + 1,
                        currentLayerRaytraceTime = dT,
                        cumulativeRaytraceTime = cumulativeRaytraceTime s + dT,
                        cumulativeRayX = cumulativeRayX s + dR,
                        cumulativeRayZ = cumulativeRayZ s + dZ\<rparr>"
      from "1.prems" guard step commit
      have rec: "planarRayTrace_loop svp p t ?s1 (rs @ [(dR, dZ)]) (ts @ [dT]) = Inr (s', rs', ts')"
        by (subst (asm) planarRayTrace_loop.simps) simp
      from "1.IH" [OF guard step refl refl commit rec]
      obtain rs2 ts2 where
        "rs' = (rs @ [(dR, dZ)]) @ rs2" "ts' = (ts @ [dT]) @ ts2" "length rs2 = length ts2"
        "cumulativeRaytraceTime s' = cumulativeRaytraceTime ?s1 + sum_list ts2"
        "cumulativeRayX s' = cumulativeRayX ?s1 + sum_list (map fst rs2)"
        "cumulativeRayZ s' = cumulativeRayZ ?s1 + sum_list (map snd rs2)"
        by blast
      then show ?thesis
        by (intro exI [of _ "(dR, dZ) # rs2"] exI [of _ "dT # ts2"]) simp
    qed
  qed
qed

lemma rayTrace_transducerLayer_index:
  assumes "rayTrace_transducerLayer ping svp p t = Inr s0"
  shows "currentLayerIndex s0 = getLayerIndexForDepth svp (getTransducerDepth ping)"
  using assms
  by (auto simp: rayTrace_transducerLayer_def Let_def split: if_splits sum.splits prod.splits)

lemma planarRayTrace_transducerLayer_appends:
  assumes "planarRayTrace_transducerLayer ping svp p t rs ts = Inr (s0, rs0, ts0)"
  shows "currentLayerIndex s0 = getLayerIndexForDepth svp (getTransducerDepth ping)
       \<and> (\<exists>rs2 ts2. rs0 = rs @ rs2 \<and> ts0 = ts @ ts2 \<and> length rs2 = length ts2
           \<and> cumulativeRaytraceTime s0 = sum_list ts2
           \<and> cumulativeRayX s0 = sum_list (map fst rs2)
           \<and> cumulativeRayZ s0 = sum_list (map snd rs2))"
  using assms
  by (auto simp: planarRayTrace_transducerLayer_def Let_def
      split: if_splits sum.splits prod.splits)

text \<open>What a returning planarRayTrace has appended.\<close>

lemma planarRayTrace_result:
  assumes "planarRayTrace s2c ping svp boresightMatrix imu2nav layerRays layerTravelTimes
             = Inr (raytracedPing, rays', times')"
  shows "\<exists>rs ts c dxf dzf sinAz cosAz beta0.
           launchVectorParameters s2c ping boresightMatrix imu2nav = Inr (sinAz, cosAz, beta0)
         \<and> rays' = layerRays @ rs @ [(dxf, dzf)]
         \<and> times' = layerTravelTimes @ ts @ [getTwoWayTravelTime ping / 2 - sum_list ts]
         \<and> length rs = length ts
         \<and> lastLayerPropagation (getTwoWayTravelTime ping / 2 - sum_list ts) c
              (cos beta0 / getSurfaceSoundSpeed ping) = (dzf, dxf)
         \<and> raytracedPing = (sum_list (map fst rs) + dxf, sum_list (map snd rs) + dzf)"
proof -
  obtain sinAz cosAz beta0 where
    lvp: "launchVectorParameters s2c ping boresightMatrix imu2nav = Inr (sinAz, cosAz, beta0)"
    using launchVectorParameters_returns by blast
  define T where "T = getTwoWayTravelTime ping / 2"
  define p where "p = cos beta0 / getSurfaceSoundSpeed ping"
  from assms lvp obtain s0 rs0 ts0 where
    tl: "planarRayTrace_transducerLayer ping svp p T layerRays layerTravelTimes
           = Inr (s0, rs0, ts0)"
    by (auto simp: planarRayTrace_def Let_def T_def p_def split: sum.splits prod.splits)
  from assms lvp tl obtain s rs1 ts1 where
    lp: "planarRayTrace_loop svp p T s0 rs0 ts0 = Inr (s, rs1, ts1)"
    by (auto simp: planarRayTrace_def Let_def T_def p_def split: sum.splits prod.splits)
  from assms lvp tl lp obtain c dzf dxf where
    ll: "lastLayerPropagation (T - cumulativeRaytraceTime s) c p = (dzf, dxf)"
    and res: "raytracedPing = (cumulativeRayX s + dxf, cumulativeRayZ s + dzf)"
      "rays' = rs1 @ [(dxf, dzf)]" "times' = ts1 @ [T - cumulativeRaytraceTime s]"
    by (auto simp: planarRayTrace_def Let_def T_def p_def split: sum.splits prod.splits)
  from planarRayTrace_transducerLayer_appends [OF tl] obtain ra ta where
    a: "rs0 = layerRays @ ra" "ts0 = layerTravelTimes @ ta" "length ra = length ta"
      "cumulativeRaytraceTime s0 = sum_list ta"
      "cumulativeRayX s0 = sum_list (map fst ra)"
      "cumulativeRayZ s0 = sum_list (map snd ra)"
    by blast
  from planarRayTrace_loop_appends [OF lp] obtain rb tb where
    b: "rs1 = rs0 @ rb" "ts1 = ts0 @ tb" "length rb = length tb"
      "cumulativeRaytraceTime s = cumulativeRaytraceTime s0 + sum_list tb"
      "cumulativeRayX s = cumulativeRayX s0 + sum_list (map fst rb)"
      "cumulativeRayZ s = cumulativeRayZ s0 + sum_list (map snd rb)"
    by blast
  have "rays' = layerRays @ (ra @ rb) @ [(dxf, dzf)]"
    using res a b by simp
  moreover have "times' = layerTravelTimes @ (ta @ tb) @ [T - sum_list (ta @ tb)]"
    using res a b by simp
  moreover have "length (ra @ rb) = length (ta @ tb)"
    using a b by simp
  moreover have "lastLayerPropagation (T - sum_list (ta @ tb)) c p = (dzf, dxf)"
    using ll a b by simp
  moreover have "raytracedPing
      = (sum_list (map fst (ra @ rb)) + dxf, sum_list (map snd (ra @ rb)) + dzf)"
    using res a b by simp
  ultimately show ?thesis
    using lvp unfolding T_def p_def by blast
qed

subsection \<open>The number of iterations\<close>

lemma rayTrace_loop_iterations_bound:
  "rayTrace_loop_iterations svp p t s \<le> unat (getSize svp - 1) - unat (currentLayerIndex s)"
proof (induction svp p t s rule: rayTrace_loop_iterations.induct)
  case (1 svp p t s)
  show ?case
  proof (cases "cumulativeRaytraceTime s + currentLayerRaytraceTime s \<le> t
         \<and> currentLayerIndex s < getSize svp - 1")
    case False
    then show ?thesis
      by (subst rayTrace_loop_iterations.simps) auto
  next
    case guard: True
    then have lt: "currentLayerIndex s < getSize svp - 1"
      by simp
    have room: "unat (currentLayerIndex s) < unat (getSize svp - 1)"
      using lt by (simp add: word_less_nat_alt)
    show ?thesis
    proof (cases "profileLayerStep svp p (currentLayerIndex s)")
      case (Inl e)
      with guard room show ?thesis
        by (subst rayTrace_loop_iterations.simps) simp
    next
      case (Inr r)
      obtain dZ dR dT where r: "r = (dZ, dR, dT)"
        by (cases r) auto
      show ?thesis
      proof (cases "cumulativeRaytraceTime s + dT \<le> t")
        case False
        with guard room Inr r show ?thesis
          by (subst rayTrace_loop_iterations.simps) simp
      next
        case commit: True
        have "rayTrace_loop_iterations svp p t
                \<lparr>currentLayerIndex = currentLayerIndex s + 1,
                        currentLayerRaytraceTime = dT,
                        cumulativeRaytraceTime = cumulativeRaytraceTime s + dT,
                        cumulativeRayX = cumulativeRayX s + dR,
                        cumulativeRayZ = cumulativeRayZ s + dZ\<rparr>
              \<le> unat (getSize svp - 1) - unat (currentLayerIndex s + 1)"
          using "1.IH" [OF guard Inr [unfolded r] refl refl commit] by simp
        with guard room Inr r commit show ?thesis
          by (subst rayTrace_loop_iterations.simps) (simp add: word_succ_unat [OF lt])
      qed
    qed
  qed
qed

lemma planarRayTrace_loop_iterations_bound:
  "planarRayTrace_loop_iterations svp p t s rs ts \<le> unat (getSize svp - 1) - unat (currentLayerIndex s)"
proof (induction svp p t s rs ts rule: planarRayTrace_loop_iterations.induct)
  case (1 svp p t s rs ts)
  show ?case
  proof (cases "cumulativeRaytraceTime s + currentLayerRaytraceTime s \<le> t
         \<and> currentLayerIndex s < getSize svp - 1")
    case False
    then show ?thesis
      by (subst planarRayTrace_loop_iterations.simps) auto
  next
    case guard: True
    then have lt: "currentLayerIndex s < getSize svp - 1"
      by simp
    have room: "unat (currentLayerIndex s) < unat (getSize svp - 1)"
      using lt by (simp add: word_less_nat_alt)
    show ?thesis
    proof (cases "profileLayerStep svp p (currentLayerIndex s)")
      case (Inl e)
      with guard room show ?thesis
        by (subst planarRayTrace_loop_iterations.simps) simp
    next
      case (Inr r)
      obtain dZ dR dT where r: "r = (dZ, dR, dT)"
        by (cases r) auto
      show ?thesis
      proof (cases "cumulativeRaytraceTime s + dT \<le> t")
        case False
        with guard room Inr r show ?thesis
          by (subst planarRayTrace_loop_iterations.simps) simp
      next
        case commit: True
        have "planarRayTrace_loop_iterations svp p t
                \<lparr>currentLayerIndex = currentLayerIndex s + 1,
                        currentLayerRaytraceTime = dT,
                        cumulativeRaytraceTime = cumulativeRaytraceTime s + dT,
                        cumulativeRayX = cumulativeRayX s + dR,
                        cumulativeRayZ = cumulativeRayZ s + dZ\<rparr>
                (rs @ [(dR, dZ)]) (ts @ [dT])
              \<le> unat (getSize svp - 1) - unat (currentLayerIndex s + 1)"
          using "1.IH" [OF guard Inr [unfolded r] refl refl commit] by simp
        with guard room Inr r commit show ?thesis
          by (subst planarRayTrace_loop_iterations.simps) (simp add: word_succ_unat [OF lt])
      qed
    qed
  qed
qed

subsection \<open>The azimuth\<close>

lemma azimuth_unit:
  fixes v0 v1 :: real
  assumes "0 < sqrt (v0\<^sup>2 + v1\<^sup>2)"
  shows "(v0 / sqrt (v0\<^sup>2 + v1\<^sup>2))\<^sup>2 + (v1 / sqrt (v0\<^sup>2 + v1\<^sup>2))\<^sup>2 = 1"
proof -
  define n where "n = v0\<^sup>2 + v1\<^sup>2"
  have pos: "0 < n"
    using assms by (simp add: n_def)
  have sq: "(sqrt n)\<^sup>2 = n"
    using pos by simp
  have "(v0 / sqrt n)\<^sup>2 + (v1 / sqrt n)\<^sup>2 = (v0\<^sup>2 + v1\<^sup>2) / (sqrt n)\<^sup>2"
    by (simp only: power_divide add_divide_distrib)
  also have "\<dots> = n / n"
    unfolding sq by (simp add: n_def)
  also have "\<dots> = 1"
    using pos by simp
  finally show ?thesis
    by (simp only: n_def)
qed

lemma horizontal_norm:
  fixes X sinAz cosAz :: real
  shows "sqrt ((X * sinAz)\<^sup>2 + (X * cosAz)\<^sup>2) = \<bar>X\<bar> * sqrt (sinAz\<^sup>2 + cosAz\<^sup>2)"
proof -
  have "(X * sinAz)\<^sup>2 + (X * cosAz)\<^sup>2 = X\<^sup>2 * (sinAz\<^sup>2 + cosAz\<^sup>2)"
    by (simp add: power_mult_distrib distrib_left)
  then show ?thesis
    by (simp add: real_sqrt_mult)
qed

text \<open>The horizontal norm of the 3D result against the range of the 2D aggregate.\<close>

lemma rayTrace_planarRayTrace_norm:
  assumes "launchVectorNav s2c ping boresightMatrix imu2nav = (v0, v1, v2)"
  shows "(\<forall>e. planarRayTrace s2c ping svp boresightMatrix imu2nav layerRays layerTravelTimes
               = Inl e
            \<longrightarrow> rayTrace s2c ping svp boresightMatrix imu2nav = Inl e)
       \<and> (\<forall>R Z rays' times'.
            planarRayTrace s2c ping svp boresightMatrix imu2nav layerRays layerTravelTimes
               = Inr ((R, Z), rays', times')
            \<longrightarrow> (\<exists>x y. rayTrace s2c ping svp boresightMatrix imu2nav = Inr (x, y, Z)
                   \<and> sqrt (x\<^sup>2 + y\<^sup>2) = (if 0 < sqrt (v0\<^sup>2 + v1\<^sup>2) then \<bar>R\<bar> else 0)))"
proof (intro conjI allI impI)
  fix e
  assume "planarRayTrace s2c ping svp boresightMatrix imu2nav layerRays layerTravelTimes = Inl e"
  then show "rayTrace s2c ping svp boresightMatrix imu2nav = Inl e"
    using rayTrace_planarRayTrace [of s2c ping boresightMatrix imu2nav _ _ _ svp
        layerRays layerTravelTimes] launchVectorParameters_returns [of s2c ping boresightMatrix imu2nav]
    by auto
next
  fix R Z rays' times'
  assume planar: "planarRayTrace s2c ping svp boresightMatrix imu2nav layerRays layerTravelTimes
                    = Inr ((R, Z), rays', times')"
  show "\<exists>x y. rayTrace s2c ping svp boresightMatrix imu2nav = Inr (x, y, Z)
          \<and> sqrt (x\<^sup>2 + y\<^sup>2) = (if 0 < sqrt (v0\<^sup>2 + v1\<^sup>2) then \<bar>R\<bar> else 0)"
  proof (cases "0 < sqrt (v0\<^sup>2 + v1\<^sup>2)")
    case True
    with launchVectorParameters_value [OF assms]
    have lvp: "launchVectorParameters s2c ping boresightMatrix imu2nav
        = Inr (v0 / sqrt (v0\<^sup>2 + v1\<^sup>2), v1 / sqrt (v0\<^sup>2 + v1\<^sup>2), arcsin v2)"
      by simp
    have "rayTrace s2c ping svp boresightMatrix imu2nav
        = Inr (R * (v0 / sqrt (v0\<^sup>2 + v1\<^sup>2)), R * (v1 / sqrt (v0\<^sup>2 + v1\<^sup>2)), Z)"
      using rayTrace_planarRayTrace [OF lvp, of svp layerRays layerTravelTimes] planar by simp
    moreover have "sqrt ((R * (v0 / sqrt (v0\<^sup>2 + v1\<^sup>2)))\<^sup>2 + (R * (v1 / sqrt (v0\<^sup>2 + v1\<^sup>2)))\<^sup>2)
        = \<bar>R\<bar>"
      by (simp only: horizontal_norm azimuth_unit [OF True]) simp
    ultimately show ?thesis
      using True by simp
  next
    case False
    with launchVectorParameters_value [OF assms]
    have lvp: "launchVectorParameters s2c ping boresightMatrix imu2nav
        = Inr (0, 0, arcsin v2)"
      by simp
    have "rayTrace s2c ping svp boresightMatrix imu2nav = Inr (R * 0, R * 0, Z)"
      using rayTrace_planarRayTrace [OF lvp, of svp layerRays layerTravelTimes] planar by simp
    with False show ?thesis
      by simp
  qed
qed

subsection \<open>Propagation at the surface sound speed\<close>

lemma sine_of_grazing_angle:
  fixes beta0 c :: real
  assumes "c \<noteq> 0"
  shows "sqrt (1 - (cos beta0 / c * c)\<^sup>2) = \<bar>sin beta0\<bar>"
proof -
  have "1 - (cos beta0)\<^sup>2 = (sin beta0)\<^sup>2"
    by (simp add: sin_squared_eq)
  with assms show ?thesis
    by simp
qed

lemma lastLayerPropagation_surface:
  assumes "c \<noteq> 0"
  shows "lastLayerPropagation t c (cos beta0 / c) = (c * t * \<bar>sin beta0\<bar>, c * t * cos beta0)"
  using assms sine_of_grazing_angle [OF assms, of beta0]
  by (simp add: lastLayerPropagation_def Let_def)



lemma coeff_in_set:
  assumes "coeff v i = Inr x"
  shows "x \<in> set v"
  using assms by (auto simp: coeff_def split: if_splits)





subsection \<open>When a trace raises\<close>

lemma not_below_last_layer:
  fixes i n :: "32 word"
  assumes "\<not> i < n" and "n \<noteq> 0"
  shows "\<not> i < n - 1"
proof -
  have "unat (n - 1) = unat n - 1"
    using assms(2) by (rule unat_minus_one)
  then show ?thesis
    using assms(1) by (simp add: word_less_nat_alt)
qed

lemma coeff_in_range:
  assumes "unat i < length v"
  shows "coeff v i = Inr (v ! unat i)"
  using assms by (simp add: coeff_def)

lemma profileLayerStep_in_range:
  assumes "svp_consistent svp" and "i < getSize svp - 1"
  shows "\<exists>r. profileLayerStep svp p i = Inr r"
proof -
  have n: "unat (getSize svp - 1) = unat (getSize svp) - 1"
    using assms(1) by (simp add: svp_consistent_def unat_minus_one)
  have i: "unat i < unat (getSize svp) - 1"
    using assms(2) n by (simp add: word_less_nat_alt)
  have i1: "unat (i + 1) = Suc (unat i)"
    using assms(2) by (rule word_succ_unat)
  have "coeff (getSoundSpeedGradient svp) i = Inr (getSoundSpeedGradient svp ! unat i)"
    and "coeff (getDepths svp) i = Inr (getDepths svp ! unat i)"
    and "coeff (getDepths svp) (i + 1) = Inr (getDepths svp ! unat (i + 1))"
    and "coeff (getSpeeds svp) i = Inr (getSpeeds svp ! unat i)"
    and "coeff (getSpeeds svp) (i + 1) = Inr (getSpeeds svp ! unat (i + 1))"
    using assms(1) i i1 by (simp_all add: svp_consistent_def coeff_in_range)
  then have "profileLayerStep svp p i =
      Inr (if \<bar>getSoundSpeedGradient svp ! unat i\<bar> < gradientEpsilon
           then constantCelerityRayTracing (getDepths svp ! unat i)
                  (getDepths svp ! unat (i + 1)) (getSpeeds svp ! unat i) p
           else constantGradientRayTracing (getSpeeds svp ! unat i)
                  (getSpeeds svp ! unat (i + 1)) (getSoundSpeedGradient svp ! unat i) p)"
    by (simp add: profileLayerStep_def)
  then show ?thesis
    by (rule exI)
qed

lemma planarRayTrace_loop_in_range:
  assumes "svp_consistent svp" and "currentLayerIndex s < getSize svp"
  shows "\<exists>s' rs' ts'. planarRayTrace_loop svp p t s rs ts = Inr (s', rs', ts')
           \<and> currentLayerIndex s' < getSize svp"
  using assms
proof (induction svp p t s rs ts rule: planarRayTrace_loop.induct)
  case (1 svp p t s rs ts)
  show ?case
  proof (cases "cumulativeRaytraceTime s + currentLayerRaytraceTime s \<le> t
         \<and> currentLayerIndex s < getSize svp - 1")
    case False
    with "1.prems"(2) show ?thesis
      by (subst planarRayTrace_loop.simps) auto
  next
    case guard: True
    then have lt: "currentLayerIndex s < getSize svp - 1"
      by simp
    from profileLayerStep_in_range [OF "1.prems"(1) lt] obtain dZ dR dT where
      step: "profileLayerStep svp p (currentLayerIndex s) = Inr (dZ, dR, dT)"
      by (metis prod_cases3)
    show ?thesis
    proof (cases "cumulativeRaytraceTime s + dT \<le> t")
      case False
      with guard step "1.prems"(2) show ?thesis
        by (subst planarRayTrace_loop.simps) simp
    next
      case commit: True
      have "unat (getSize svp - 1) = unat (getSize svp) - 1"
        using "1.prems"(1) by (simp add: svp_consistent_def unat_minus_one)
      then have next_in: "currentLayerIndex s + 1 < getSize svp"
        using lt word_succ_unat [OF lt] by (simp add: word_less_nat_alt)
      from "1.IH" [OF guard step refl refl commit "1.prems"(1)] next_in
      obtain s' rs' ts' where
        "planarRayTrace_loop svp p t
           \<lparr>currentLayerIndex = currentLayerIndex s + 1, currentLayerRaytraceTime = dT,
            cumulativeRaytraceTime = cumulativeRaytraceTime s + dT,
            cumulativeRayX = cumulativeRayX s + dR,
            cumulativeRayZ = cumulativeRayZ s + dZ\<rparr>
           (rs @ [(dR, dZ)]) (ts @ [dT]) = Inr (s', rs', ts')"
        "currentLayerIndex s' < getSize svp"
        by auto
      with guard step commit show ?thesis
        by (subst planarRayTrace_loop.simps) simp
    qed
  qed
qed

lemma planarRayTrace_loop_skipped:
  assumes "getSize svp \<noteq> 0" and "\<not> currentLayerIndex s < getSize svp"
  shows "planarRayTrace_loop svp p t s rs ts = Inr (s, rs, ts)"
  using not_below_last_layer [OF assms(2,1)]
  by (subst planarRayTrace_loop.simps) simp

text \<open>When a trace raises, and what.\<close>

lemma planarRayTrace_raises_iff:
  assumes "svp_consistent svp"
  shows "planarRayTrace s2c ping svp boresightMatrix imu2nav layerRays layerTravelTimes = Inl e
     \<longleftrightarrow> getLayerIndexForDepth svp (getTransducerDepth ping) < getSize svp
         \<and> getDepths svp ! unat (getLayerIndexForDepth svp (getTransducerDepth ping))
             = getTransducerDepth ping
         \<and> e = InvalidArgument (getTransducerDepth ping) (getTransducerDepth ping)"
proof -
  obtain sinAz cosAz beta0 where
    lvp: "launchVectorParameters s2c ping boresightMatrix imu2nav = Inr (sinAz, cosAz, beta0)"
    using launchVectorParameters_returns by blast
  define T where "T = getTwoWayTravelTime ping / 2"
  define p where "p = cos beta0 / getSurfaceSoundSpeed ping"
  define i0 where "i0 = getLayerIndexForDepth svp (getTransducerDepth ping)"
  have size: "getSize svp \<noteq> 0"
    using assms by (simp add: svp_consistent_def)
  show ?thesis
  proof (cases "i0 < getSize svp")
    case False
    let ?s0 = "\<lparr>currentLayerIndex = i0, currentLayerRaytraceTime = 0,
                cumulativeRaytraceTime = 0, cumulativeRayX = 0, cumulativeRayZ = 0\<rparr>"
    have tl: "planarRayTrace_transducerLayer ping svp p T layerRays layerTravelTimes
        = Inr (?s0, layerRays, layerTravelTimes)"
      using False by (simp add: planarRayTrace_transducerLayer_def Let_def i0_def)
    have lp: "planarRayTrace_loop svp p T ?s0 layerRays layerTravelTimes
        = Inr (?s0, layerRays, layerTravelTimes)"
      using False size by (simp add: planarRayTrace_loop_skipped)
    from False tl lp show ?thesis
      by (simp add: planarRayTrace_def lvp Let_def T_def [symmetric] p_def [symmetric]
          i0_def [symmetric] split: prod.splits)
  next
    case True
    then have inr: "unat i0 < unat (getSize svp)"
      by (simp add: word_less_nat_alt)
    then have zc: "coeff (getDepths svp) i0 = Inr (getDepths svp ! unat i0)"
      and cc: "coeff (getSpeeds svp) i0 = Inr (getSpeeds svp ! unat i0)"
      using assms by (simp_all add: svp_consistent_def coeff_in_range)
    show ?thesis
    proof (cases "getDepths svp ! unat i0 = getTransducerDepth ping")
      case same: True
      have "planarRayTrace_transducerLayer ping svp p T layerRays layerTravelTimes
          = Inl (InvalidArgument (getTransducerDepth ping) (getTransducerDepth ping))"
        using True zc cc same
        by (simp add: planarRayTrace_transducerLayer_def Let_def i0_def [symmetric]
            transducerLayerStep_def soundSpeedGradient_def)
      with True same show ?thesis
        by (auto simp: planarRayTrace_def lvp Let_def T_def [symmetric] p_def [symmetric]
            i0_def [symmetric])
    next
      case differ: False
      define g where "g = (getSpeeds svp ! unat i0 - getSurfaceSoundSpeed ping)
          / (getDepths svp ! unat i0 - getTransducerDepth ping)"
      define r where "r = (if \<bar>g\<bar> < gradientEpsilon
          then constantCelerityRayTracing (getTransducerDepth ping) (getDepths svp ! unat i0)
                 (getSurfaceSoundSpeed ping) p
          else constantGradientRayTracing (getSurfaceSoundSpeed ping) (getSpeeds svp ! unat i0)
                 g p)"
      from zc cc differ have
        step: "transducerLayerStep ping svp p i0 = Inr r"
        by (simp add: transducerLayerStep_def soundSpeedGradient_def r_def g_def)
      obtain dZ dR dT where rr: "r = (dZ, dR, dT)"
        by (cases r) auto
      have "\<exists>s0 rs0 ts0.
          planarRayTrace_transducerLayer ping svp p T layerRays layerTravelTimes
            = Inr (s0, rs0, ts0) \<and> currentLayerIndex s0 = i0"
      proof (cases "0 + dT \<le> T")
        case commit: True
        with True step rr show ?thesis
          by (simp add: planarRayTrace_transducerLayer_def Let_def i0_def [symmetric])
      next
        case False
        with True step rr show ?thesis
          by (simp add: planarRayTrace_transducerLayer_def Let_def i0_def [symmetric])
      qed
      then obtain s0 rs0 ts0 where
        tl: "planarRayTrace_transducerLayer ping svp p T layerRays layerTravelTimes
               = Inr (s0, rs0, ts0)"
        and i: "currentLayerIndex s0 = i0"
        by blast
      from planarRayTrace_loop_in_range [OF assms, of s0 p T rs0 ts0] True i
      obtain s rs1 ts1 where
        lp: "planarRayTrace_loop svp p T s0 rs0 ts0 = Inr (s, rs1, ts1)"
        and inb: "currentLayerIndex s < getSize svp"
        by auto
      from inb have "unat (currentLayerIndex s) < unat (getSize svp)"
        by (simp add: word_less_nat_alt)
      then have cl: "coeff (getSpeeds svp) (currentLayerIndex s)
          = Inr (getSpeeds svp ! unat (currentLayerIndex s))"
        using assms by (simp add: svp_consistent_def coeff_in_range)
      from True differ tl lp cl show ?thesis
        by (simp add: planarRayTrace_def lvp Let_def T_def [symmetric] p_def [symmetric]
            i0_def [symmetric] split: prod.splits)
    qed
  qed
qed

lemma rayTrace_raises_iff:
  assumes "svp_consistent svp"
  shows "rayTrace s2c ping svp boresightMatrix imu2nav = Inl e
     \<longleftrightarrow> getLayerIndexForDepth svp (getTransducerDepth ping) < getSize svp
         \<and> getDepths svp ! unat (getLayerIndexForDepth svp (getTransducerDepth ping))
             = getTransducerDepth ping
         \<and> e = InvalidArgument (getTransducerDepth ping) (getTransducerDepth ping)"
proof -
  obtain sinAz cosAz beta0 where
    lvp: "launchVectorParameters s2c ping boresightMatrix imu2nav = Inr (sinAz, cosAz, beta0)"
    using launchVectorParameters_returns by blast
  have "rayTrace s2c ping svp boresightMatrix imu2nav = Inl e
      \<longleftrightarrow> planarRayTrace s2c ping svp boresightMatrix imu2nav [] [] = Inl e"
    using rayTrace_planarRayTrace [OF lvp, of svp "[]" "[]"]
    by (auto split: sum.splits prod.splits)
  then show ?thesis
    using planarRayTrace_raises_iff [OF assms, of s2c ping boresightMatrix imu2nav "[]" "[]" e]
    by simp
qed

subsection \<open>A unit launch vector\<close>

lemma normalize_unit:
  assumes "v \<noteq> (0, 0, 0)" and "normalize v = (x, y, z)"
  shows "x\<^sup>2 + y\<^sup>2 + z\<^sup>2 = 1"
proof -
  obtain a b c where v: "v = (a, b, c)"
    by (cases v) auto
  define n where "n = a\<^sup>2 + b\<^sup>2 + c\<^sup>2"
  have "a \<noteq> 0 \<or> b \<noteq> 0 \<or> c \<noteq> 0"
    using assms(1) v by simp
  then have pos: "0 < n"
    unfolding n_def by (metis add_pos_nonneg add_nonneg_pos zero_le_power2 zero_less_power2 add_nonneg_nonneg)
  have sq: "(sqrt n)\<^sup>2 = n"
    using pos by simp
  from assms(2) v pos have "x = a / sqrt n" "y = b / sqrt n" "z = c / sqrt n"
    by (simp_all add: normalize_def Let_def n_def [symmetric])
  then have "x\<^sup>2 + y\<^sup>2 + z\<^sup>2 = (a\<^sup>2 + b\<^sup>2 + c\<^sup>2) / (sqrt n)\<^sup>2"
    by (simp add: power_divide add_divide_distrib)
  also have "\<dots> = n / n"
    unfolding sq by (simp add: n_def)
  also have "\<dots> = 1"
    using pos by simp
  finally show ?thesis .
qed

lemma orthogonalMatrix_norm:
  assumes "orthogonalMatrix m" and "matVec m (x, y, z) = (x', y', z')"
  shows "x'\<^sup>2 + y'\<^sup>2 + z'\<^sup>2 = x\<^sup>2 + y\<^sup>2 + z\<^sup>2"
proof -
  obtain a11 a12 a13 a21 a22 a23 a31 a32 a33 where
    m: "m = ((a11, a12, a13), (a21, a22, a23), (a31, a32, a33))"
    by (metis prod_cases3)
  from assms(1) m have o:
    "a11\<^sup>2 + a21\<^sup>2 + a31\<^sup>2 = 1" "a12\<^sup>2 + a22\<^sup>2 + a32\<^sup>2 = 1" "a13\<^sup>2 + a23\<^sup>2 + a33\<^sup>2 = 1"
    "a11 * a12 + a21 * a22 + a31 * a32 = 0"
    "a11 * a13 + a21 * a23 + a31 * a33 = 0"
    "a12 * a13 + a22 * a23 + a32 * a33 = 0"
    by (simp_all add: orthogonalMatrix_def)
  from assms(2) m have r:
    "x' = a11 * x + a12 * y + a13 * z"
    "y' = a21 * x + a22 * y + a23 * z"
    "z' = a31 * x + a32 * y + a33 * z"
    by (simp_all add: matVec_def)
  have "x'\<^sup>2 + y'\<^sup>2 + z'\<^sup>2 =
      x\<^sup>2 * (a11\<^sup>2 + a21\<^sup>2 + a31\<^sup>2) + y\<^sup>2 * (a12\<^sup>2 + a22\<^sup>2 + a32\<^sup>2)
      + z\<^sup>2 * (a13\<^sup>2 + a23\<^sup>2 + a33\<^sup>2)
      + 2 * x * y * (a11 * a12 + a21 * a22 + a31 * a32)
      + 2 * x * z * (a11 * a13 + a21 * a23 + a31 * a33)
      + 2 * y * z * (a12 * a13 + a22 * a23 + a32 * a33)"
    unfolding r by (simp add: power2_eq_square algebra_simps)
  then show ?thesis
    by (simp add: o)
qed

lemma launchVectorNav_unit:
  assumes "orthogonalMatrix boresightMatrix" and "orthogonalMatrix imu2nav"
    and "s2c (getAlongTrackAngle ping) (getAcrossTrackAngle ping) 1 \<noteq> (0, 0, 0)"
    and "launchVectorNav s2c ping boresightMatrix imu2nav = (v0, v1, v2)"
  shows "v0\<^sup>2 + v1\<^sup>2 + v2\<^sup>2 = 1"
proof -
  obtain x y z where
    n: "normalize (s2c (getAlongTrackAngle ping) (getAcrossTrackAngle ping) 1) = (x, y, z)"
    by (metis prod_cases3)
  obtain x' y' z' where b: "matVec boresightMatrix (x, y, z) = (x', y', z')"
    by (metis prod_cases3)
  from assms(4) n b have "matVec imu2nav (x', y', z') = (v0, v1, v2)"
    by (simp add: launchVectorNav_def Let_def)
  from orthogonalMatrix_norm [OF assms(2) this] orthogonalMatrix_norm [OF assms(1) b]
    normalize_unit [OF assms(3) n]
  show ?thesis
    by simp
qed

lemma unit_grazing_cosine:
  fixes v0 v1 v2 :: real
  assumes "v0\<^sup>2 + v1\<^sup>2 + v2\<^sup>2 = 1"
  shows "0 \<le> cos (arcsin v2)" and "cos (arcsin v2) \<le> 1"
    and "sqrt (v0\<^sup>2 + v1\<^sup>2) = 0 \<Longrightarrow> cos (arcsin v2) = 0"
proof -
  have "v2\<^sup>2 \<le> 1"
    using assms zero_le_power2 [of v0] zero_le_power2 [of v1] by linarith
  then have "\<bar>v2\<bar> \<le> 1"
    by (simp add: abs_square_le_1)
  then have c: "cos (arcsin v2) = sqrt (1 - v2\<^sup>2)"
    by (simp add: cos_arcsin abs_le_iff)
  show "0 \<le> cos (arcsin v2)"
    using \<open>v2\<^sup>2 \<le> 1\<close> by (simp add: c)
  show "cos (arcsin v2) \<le> 1"
    by simp
  assume "sqrt (v0\<^sup>2 + v1\<^sup>2) = 0"
  then have "v0\<^sup>2 + v1\<^sup>2 = 0"
    by simp
  with assms have "v2\<^sup>2 = 1"
    by simp
  then show "cos (arcsin v2) = 0"
    by (simp add: c)
qed

subsection \<open>A range that does not decrease\<close>

lemma sine_nonneg:
  fixes p c :: real
  assumes "0 \<le> p" and "0 < c" and "p * c \<le> 1"
  shows "0 \<le> sqrt (1 - (p * c)\<^sup>2)"
proof -
  have "0 \<le> p * c"
    using assms(1,2) by simp
  then have "(p * c)\<^sup>2 \<le> 1"
    using assms(3) by (simp add: power_le_one)
  then show ?thesis
    by simp
qed

lemma constantCelerityRayTracing_range:
  assumes "0 \<le> p" and "0 < c" and "p * c \<le> 1" and "z0 \<le> z1"
    and "constantCelerityRayTracing z0 z1 c p = (dZ, dR, dT)"
  shows "0 \<le> dR"
proof -
  have dR: "dR = p * c * ((z1 - z0) / (c * sqrt (1 - (p * c)\<^sup>2))) * c"
    using assms(5) unfolding constantCelerityRayTracing_def Let_def prod.inject by blast
  have "0 \<le> c * sqrt (1 - (p * c)\<^sup>2)"
    using assms(2) sine_nonneg [OF assms(1,2,3)] by simp
  then have "0 \<le> (z1 - z0) / (c * sqrt (1 - (p * c)\<^sup>2))"
    using assms(4) by simp
  moreover have "0 \<le> p * c"
    using assms(1,2) by simp
  ultimately have "0 \<le> p * c * ((z1 - z0) / (c * sqrt (1 - (p * c)\<^sup>2)))"
    by (rule mult_nonneg_nonneg [rotated])
  moreover have "0 \<le> c"
    using assms(2) by simp
  ultimately have "0 \<le> p * c * ((z1 - z0) / (c * sqrt (1 - (p * c)\<^sup>2))) * c"
    by (rule mult_nonneg_nonneg)
  then show ?thesis
    unfolding dR .
qed

lemma constantGradientRayTracing_range:
  assumes "0 \<le> p" and "0 < c0" and "0 < c1" and "0 \<le> g * (c1 - c0)"
    and "constantGradientRayTracing c0 c1 g p = (dZ, dR, dT)"
  shows "0 \<le> dR"
proof -
  have dR: "dR = 1 / (p * g) * (sqrt (1 - (p * c0)\<^sup>2) - sqrt (1 - (p * c1)\<^sup>2))"
    using assms(5) unfolding constantGradientRayTracing_def Let_def prod.inject by blast
  consider "c0 < c1" | "c0 = c1" | "c1 < c0"
    by linarith
  then show ?thesis
  proof cases
    case 1
    then have "0 \<le> g"
      using assms(4) by (simp add: zero_le_mult_iff)
    then have r: "0 \<le> 1 / (p * g)"
      using assms(1) by simp
    have "p * c0 \<le> p * c1"
      using 1 assms(1) by (simp add: mult_left_mono)
    moreover have "0 \<le> p * c0"
      using assms(1,2) by simp
    ultimately have "(p * c0)\<^sup>2 \<le> (p * c1)\<^sup>2"
      by (simp add: power_mono)
    then have "0 \<le> sqrt (1 - (p * c0)\<^sup>2) - sqrt (1 - (p * c1)\<^sup>2)"
      by simp
    with r show ?thesis
      unfolding dR by simp
  next
    case 2
    then show ?thesis
      unfolding dR by simp
  next
    case 3
    then have "g \<le> 0"
      using assms(4) by (simp add: zero_le_mult_iff)
    then have "p * g \<le> 0"
      using assms(1) by (simp add: mult_nonneg_nonpos)
    then have r: "1 / (p * g) \<le> 0"
      by simp
    have "p * c1 \<le> p * c0"
      using 3 assms(1) by (simp add: mult_left_mono)
    moreover have "0 \<le> p * c1"
      using assms(1,3) by simp
    ultimately have "(p * c1)\<^sup>2 \<le> (p * c0)\<^sup>2"
      by (simp add: power_mono)
    then have "sqrt (1 - (p * c0)\<^sup>2) - sqrt (1 - (p * c1)\<^sup>2) \<le> 0"
      by simp
    with r show ?thesis
      unfolding dR by (rule mult_nonpos_nonpos)
  qed
qed

lemma derivedGradient_nth:
  assumes "length cs = length zs" and "Suc i < length zs"
  shows "derivedGradient zs cs ! i = (cs ! Suc i - cs ! i) / (zs ! Suc i - zs ! i)"
  using assms
proof (induction zs cs arbitrary: i rule: derivedGradient.induct)
  case (1 z0 z1 zs c0 c1 cs)
  then show ?case
    by (cases i) simp_all
qed simp_all

lemma profileLayerStep_value:
  assumes "svp_consistent svp" and "i < getSize svp - 1"
  shows "profileLayerStep svp p i =
      Inr (if \<bar>getSoundSpeedGradient svp ! unat i\<bar> < gradientEpsilon
           then constantCelerityRayTracing (getDepths svp ! unat i)
                  (getDepths svp ! Suc (unat i)) (getSpeeds svp ! unat i) p
           else constantGradientRayTracing (getSpeeds svp ! unat i)
                  (getSpeeds svp ! Suc (unat i)) (getSoundSpeedGradient svp ! unat i) p)"
    and "Suc (unat i) < unat (getSize svp)"
proof -
  have n: "unat (getSize svp - 1) = unat (getSize svp) - 1"
    using assms(1) by (simp add: svp_consistent_def unat_minus_one)
  have i: "unat i < unat (getSize svp) - 1"
    using assms(2) n by (simp add: word_less_nat_alt)
  then show "Suc (unat i) < unat (getSize svp)"
    by simp
  have i1: "unat (i + 1) = Suc (unat i)"
    using assms(2) by (rule word_succ_unat)
  have "coeff (getSoundSpeedGradient svp) i = Inr (getSoundSpeedGradient svp ! unat i)"
    and "coeff (getDepths svp) i = Inr (getDepths svp ! unat i)"
    and "coeff (getDepths svp) (i + 1) = Inr (getDepths svp ! Suc (unat i))"
    and "coeff (getSpeeds svp) i = Inr (getSpeeds svp ! unat i)"
    and "coeff (getSpeeds svp) (i + 1) = Inr (getSpeeds svp ! Suc (unat i))"
    using assms(1) i i1 by (simp_all add: svp_consistent_def coeff_def)
  then show "profileLayerStep svp p i =
      Inr (if \<bar>getSoundSpeedGradient svp ! unat i\<bar> < gradientEpsilon
           then constantCelerityRayTracing (getDepths svp ! unat i)
                  (getDepths svp ! Suc (unat i)) (getSpeeds svp ! unat i) p
           else constantGradientRayTracing (getSpeeds svp ! unat i)
                  (getSpeeds svp ! Suc (unat i)) (getSoundSpeedGradient svp ! unat i) p)"
    by (simp add: profileLayerStep_def)
qed

lemma profileLayerStep_range:
  assumes "svp_physical svp" and "i < getSize svp - 1" and "0 \<le> p"
    and "\<forall>c \<in> set (getSpeeds svp). p * c \<le> 1"
    and "profileLayerStep svp p i = Inr (dZ, dR, dT)"
  shows "0 \<le> dR"
proof -
  have cons: "svp_consistent svp"
    and sorted: "sorted_wrt (<) (getDepths svp)"
    and speeds: "\<forall>c \<in> set (getSpeeds svp). 0 < c"
    and grad: "getSoundSpeedGradient svp = derivedGradient (getDepths svp) (getSpeeds svp)"
    using assms(1) by (simp_all add: svp_physical_def)
  note v = profileLayerStep_value(1) [OF cons assms(2), of p]
    profileLayerStep_value(2) [OF cons assms(2)]
  have len: "length (getDepths svp) = unat (getSize svp)"
    "length (getSpeeds svp) = unat (getSize svp)"
    using cons by (simp_all add: svp_consistent_def)
  let ?i = "unat i"
  have z: "getDepths svp ! ?i < getDepths svp ! Suc ?i"
    using sorted v(2) len by (simp add: sorted_wrt_nth_less)
  have c0: "0 < getSpeeds svp ! ?i" and c1: "0 < getSpeeds svp ! Suc ?i"
    using speeds v(2) len by simp_all
  have d0: "p * (getSpeeds svp ! ?i) \<le> 1"
    using assms(4) v(2) len by simp
  have g: "getSoundSpeedGradient svp ! ?i
      = (getSpeeds svp ! Suc ?i - getSpeeds svp ! ?i) / (getDepths svp ! Suc ?i - getDepths svp ! ?i)"
    unfolding grad using v(2) len by (simp add: derivedGradient_nth)
  have gs: "0 \<le> getSoundSpeedGradient svp ! ?i * (getSpeeds svp ! Suc ?i - getSpeeds svp ! ?i)"
  proof -
    have "getSoundSpeedGradient svp ! ?i * (getSpeeds svp ! Suc ?i - getSpeeds svp ! ?i)
        = (getSpeeds svp ! Suc ?i - getSpeeds svp ! ?i)\<^sup>2
            / (getDepths svp ! Suc ?i - getDepths svp ! ?i)"
      unfolding g by (simp add: power2_eq_square)
    also have "0 \<le> \<dots>"
      using z by simp
    finally show ?thesis .
  qed
  show ?thesis
  proof (cases "\<bar>getSoundSpeedGradient svp ! ?i\<bar> < gradientEpsilon")
    case True
    with v(1) assms(5) have "constantCelerityRayTracing (getDepths svp ! ?i)
        (getDepths svp ! Suc ?i) (getSpeeds svp ! ?i) p = (dZ, dR, dT)"
      by simp
    from constantCelerityRayTracing_range [OF assms(3) c0 d0 _ this] z show ?thesis
      by simp
  next
    case False
    with v(1) assms(5) have "constantGradientRayTracing (getSpeeds svp ! ?i)
        (getSpeeds svp ! Suc ?i) (getSoundSpeedGradient svp ! ?i) p = (dZ, dR, dT)"
      by simp
    from constantGradientRayTracing_range [OF assms(3) c0 c1 gs this] show ?thesis .
  qed
qed

lemma transducerLayerStep_range:
  assumes "svp_physical svp" and "i < getSize svp"
    and "getTransducerDepth ping \<le> getDepths svp ! unat i"
    and "0 < getSurfaceSoundSpeed ping" and "0 \<le> p"
    and "p * getSurfaceSoundSpeed ping \<le> 1"
    and "transducerLayerStep ping svp p i = Inr (dZ, dR, dT)"
  shows "0 \<le> dR"
proof -
  have cons: "svp_consistent svp" and speeds: "\<forall>c \<in> set (getSpeeds svp). 0 < c"
    using assms(1) by (simp_all add: svp_physical_def)
  have inb: "unat i < unat (getSize svp)"
    using assms(2) by (simp add: word_less_nat_alt)
  then have zc: "coeff (getDepths svp) i = Inr (getDepths svp ! unat i)"
    and cc: "coeff (getSpeeds svp) i = Inr (getSpeeds svp ! unat i)"
    using cons by (simp_all add: svp_consistent_def coeff_def)
  let ?zc = "getDepths svp ! unat i" and ?cc = "getSpeeds svp ! unat i"
  let ?td = "getTransducerDepth ping" and ?c0 = "getSurfaceSoundSpeed ping"
  have ccpos: "0 < ?cc"
    using speeds inb cons by (simp add: svp_consistent_def)
  from assms(7) zc cc have ne: "?zc \<noteq> ?td"
    by (auto simp: transducerLayerStep_def soundSpeedGradient_def split: if_splits)
  with assms(3) have lt: "?td < ?zc"
    by simp
  define g where "g = (?cc - ?c0) / (?zc - ?td)"
  have step: "(if \<bar>g\<bar> < gradientEpsilon
      then constantCelerityRayTracing ?td ?zc ?c0 p
      else constantGradientRayTracing ?c0 ?cc g p) = (dZ, dR, dT)"
    using assms(7) zc cc ne
    by (simp add: transducerLayerStep_def soundSpeedGradient_def g_def split: if_splits)
  have gs: "0 \<le> g * (?cc - ?c0)"
  proof -
    have "g * (?cc - ?c0) = (?cc - ?c0)\<^sup>2 / (?zc - ?td)"
      unfolding g_def by (simp add: power2_eq_square)
    also have "0 \<le> \<dots>"
      using lt by simp
    finally show ?thesis .
  qed
  show ?thesis
  proof (cases "\<bar>g\<bar> < gradientEpsilon")
    case True
    with step have "constantCelerityRayTracing ?td ?zc ?c0 p = (dZ, dR, dT)"
      by simp
    from constantCelerityRayTracing_range [OF assms(5,4,6,3) this] show ?thesis .
  next
    case False
    with step have "constantGradientRayTracing ?c0 ?cc g p = (dZ, dR, dT)"
      by simp
    from constantGradientRayTracing_range [OF assms(5,4) ccpos gs this] show ?thesis .
  qed
qed

text \<open>With a Snell constant of zero, a vertical ray, no step has a range.\<close>

lemma profileLayerStep_vertical:
  assumes "profileLayerStep svp 0 i = Inr (dZ, dR, dT)"
  shows "dR = 0"
  using assms
  by (auto simp: profileLayerStep_def constantCelerityRayTracing_def
      constantGradientRayTracing_def Let_def split: sum.splits if_splits)

lemma transducerLayerStep_vertical:
  assumes "transducerLayerStep ping svp 0 i = Inr (dZ, dR, dT)"
  shows "dR = 0"
  using assms
  by (auto simp: transducerLayerStep_def constantCelerityRayTracing_def
      constantGradientRayTracing_def Let_def split: sum.splits if_splits)

text \<open>An invariant of the committed states holds at the exit of the loop.\<close>

lemma planarRayTrace_loop_invariant:
  assumes "planarRayTrace_loop svp p t s rs ts = Inr (s', rs', ts')"
    and "I s"
    and "\<And>s dZ dR dT. I s \<Longrightarrow> currentLayerIndex s < getSize svp - 1
           \<Longrightarrow> profileLayerStep svp p (currentLayerIndex s) = Inr (dZ, dR, dT)
           \<Longrightarrow> cumulativeRaytraceTime s + dT \<le> t
           \<Longrightarrow> I \<lparr>currentLayerIndex = currentLayerIndex s + 1,
                    currentLayerRaytraceTime = dT,
                    cumulativeRaytraceTime = cumulativeRaytraceTime s + dT,
                    cumulativeRayX = cumulativeRayX s + dR,
                    cumulativeRayZ = cumulativeRayZ s + dZ\<rparr>"
    and "\<And>s dT. I s \<Longrightarrow> I (s\<lparr>currentLayerRaytraceTime := dT\<rparr>)"
  shows "I s'"
  using assms
proof (induction svp p t s rs ts rule: planarRayTrace_loop.induct)
  case (1 svp p t s rs ts)
  show ?case
  proof (cases "cumulativeRaytraceTime s + currentLayerRaytraceTime s \<le> t
         \<and> currentLayerIndex s < getSize svp - 1")
    case False
    with "1.prems" show ?thesis
      by (subst (asm) planarRayTrace_loop.simps) auto
  next
    case guard: True
    from "1.prems"(1) guard obtain dZ dR dT where
      step: "profileLayerStep svp p (currentLayerIndex s) = Inr (dZ, dR, dT)"
      by (subst (asm) planarRayTrace_loop.simps) (auto split: sum.splits)
    show ?thesis
    proof (cases "cumulativeRaytraceTime s + dT \<le> t")
      case False
      with "1.prems"(1) guard step have "s' = s\<lparr>currentLayerRaytraceTime := dT\<rparr>"
        by (subst (asm) planarRayTrace_loop.simps) auto
      with "1.prems"(4) [OF "1.prems"(2)] show ?thesis
        by simp
    next
      case commit: True
      let ?s1 = "\<lparr>currentLayerIndex = currentLayerIndex s + 1,
                        currentLayerRaytraceTime = dT,
                        cumulativeRaytraceTime = cumulativeRaytraceTime s + dT,
                        cumulativeRayX = cumulativeRayX s + dR,
                        cumulativeRayZ = cumulativeRayZ s + dZ\<rparr>"
      from "1.prems"(1) guard step commit
      have rec: "planarRayTrace_loop svp p t ?s1 (rs @ [(dR, dZ)]) (ts @ [dT])
          = Inr (s', rs', ts')"
        by (subst (asm) planarRayTrace_loop.simps) simp
      have "I ?s1"
        using "1.prems"(3) [OF "1.prems"(2) _ step commit] guard by simp
      from "1.IH" [OF guard step refl refl commit rec this "1.prems"(3) "1.prems"(4)]
      show ?thesis .
    qed
  qed
qed

lemma planarRayTrace_transducerLayer_range:
  assumes "svp_physical svp"
    and "getLayerIndexForDepth svp (getTransducerDepth ping) < getSize svp \<longrightarrow>
           getTransducerDepth ping
             \<le> getDepths svp ! unat (getLayerIndexForDepth svp (getTransducerDepth ping))"
    and "0 < getSurfaceSoundSpeed ping" and "0 \<le> p"
    and "p * getSurfaceSoundSpeed ping \<le> 1" and "0 \<le> T"
    and "planarRayTrace_transducerLayer ping svp p T rs ts = Inr (s0, rs0, ts0)"
  shows "0 \<le> cumulativeRayX s0 \<and> cumulativeRaytraceTime s0 \<le> T"
proof (cases "getLayerIndexForDepth svp (getTransducerDepth ping) < getSize svp")
  case False
  with assms(6,7) show ?thesis
    by (auto simp: planarRayTrace_transducerLayer_def Let_def)
next
  case inside: True
  with assms(7) obtain dZ dR dT where
    step: "transducerLayerStep ping svp p (getLayerIndexForDepth svp (getTransducerDepth ping))
             = Inr (dZ, dR, dT)"
    by (auto simp: planarRayTrace_transducerLayer_def Let_def split: sum.splits)
  have "0 \<le> dR"
    using transducerLayerStep_range [OF assms(1) inside _ assms(3,4,5) step] assms(2) inside
    by simp
  with assms(6,7) inside step show ?thesis
    by (auto simp: planarRayTrace_transducerLayer_def Let_def split: if_splits)
qed

lemma planarRayTrace_transducerLayer_vertical:
  assumes "planarRayTrace_transducerLayer ping svp 0 T rs ts = Inr (s0, rs0, ts0)"
  shows "cumulativeRayX s0 = 0"
proof (cases "getLayerIndexForDepth svp (getTransducerDepth ping) < getSize svp")
  case False
  with assms show ?thesis
    by (auto simp: planarRayTrace_transducerLayer_def Let_def)
next
  case inside: True
  with assms obtain dZ dR dT where
    step: "transducerLayerStep ping svp 0 (getLayerIndexForDepth svp (getTransducerDepth ping))
             = Inr (dZ, dR, dT)"
    by (auto simp: planarRayTrace_transducerLayer_def Let_def split: sum.splits)
  from transducerLayerStep_vertical [OF step] assms inside step show ?thesis
    by (auto simp: planarRayTrace_transducerLayer_def Let_def split: if_splits)
qed

lemma planarRayTrace_loop_range:
  assumes "svp_physical svp" and "0 \<le> p" and "\<forall>c \<in> set (getSpeeds svp). p * c \<le> 1"
    and "planarRayTrace_loop svp p T s rs ts = Inr (s', rs', ts')"
    and "0 \<le> cumulativeRayX s \<and> cumulativeRaytraceTime s \<le> T"
  shows "0 \<le> cumulativeRayX s' \<and> cumulativeRaytraceTime s' \<le> T"
proof (rule planarRayTrace_loop_invariant
    [where I = "\<lambda>s. 0 \<le> cumulativeRayX s \<and> cumulativeRaytraceTime s \<le> T", OF assms(4,5)])
  fix s dZ dR dT
  assume inv: "0 \<le> cumulativeRayX s \<and> cumulativeRaytraceTime s \<le> T"
    and i: "currentLayerIndex s < getSize svp - 1"
    and step: "profileLayerStep svp p (currentLayerIndex s) = Inr (dZ, dR, dT)"
    and commit: "cumulativeRaytraceTime s + dT \<le> T"
  have "0 \<le> dR"
    using profileLayerStep_range [OF assms(1) i assms(2,3) step] .
  with inv commit
  show "0 \<le> cumulativeRayX \<lparr>currentLayerIndex = currentLayerIndex s + 1,
                    currentLayerRaytraceTime = dT,
                    cumulativeRaytraceTime = cumulativeRaytraceTime s + dT,
                    cumulativeRayX = cumulativeRayX s + dR,
                    cumulativeRayZ = cumulativeRayZ s + dZ\<rparr>
      \<and> cumulativeRaytraceTime \<lparr>currentLayerIndex = currentLayerIndex s + 1,
                    currentLayerRaytraceTime = dT,
                    cumulativeRaytraceTime = cumulativeRaytraceTime s + dT,
                    cumulativeRayX = cumulativeRayX s + dR,
                    cumulativeRayZ = cumulativeRayZ s + dZ\<rparr> \<le> T"
    by simp
next
  fix s dT
  assume "0 \<le> cumulativeRayX s \<and> cumulativeRaytraceTime s \<le> T"
  then show "0 \<le> cumulativeRayX (s\<lparr>currentLayerRaytraceTime := dT\<rparr>)
      \<and> cumulativeRaytraceTime (s\<lparr>currentLayerRaytraceTime := dT\<rparr>) \<le> T"
    by simp
qed

lemma planarRayTrace_loop_vertical:
  assumes "planarRayTrace_loop svp 0 T s rs ts = Inr (s', rs', ts')"
    and "cumulativeRayX s = 0"
  shows "cumulativeRayX s' = 0"
proof (rule planarRayTrace_loop_invariant
    [where I = "\<lambda>s. cumulativeRayX s = 0", OF assms])
  fix s dZ dR dT
  assume inv: "cumulativeRayX s = 0"
    and step: "profileLayerStep svp 0 (currentLayerIndex s) = Inr (dZ, dR, dT)"
  from profileLayerStep_vertical [OF step] inv
  show "cumulativeRayX \<lparr>currentLayerIndex = currentLayerIndex s + 1,
                    currentLayerRaytraceTime = dT,
                    cumulativeRaytraceTime = cumulativeRaytraceTime s + dT,
                    cumulativeRayX = cumulativeRayX s + dR,
                    cumulativeRayZ = cumulativeRayZ s + dZ\<rparr> = 0"
    by simp
next
  fix s dT
  assume "cumulativeRayX s = 0"
  then show "cumulativeRayX (s\<lparr>currentLayerRaytraceTime := dT\<rparr>) = 0"
    by simp
qed

text \<open>The range of the aggregate, from the state at the exit of the loop.\<close>

lemma planarRayTrace_unfold:
  assumes "launchVectorParameters s2c ping boresightMatrix imu2nav = Inr (sinAz, cosAz, beta0)"
    and "planarRayTrace s2c ping svp boresightMatrix imu2nav layerRays layerTravelTimes
           = Inr ((R, Z), rays', times')"
    and "T = getTwoWayTravelTime ping / 2"
    and "p = cos beta0 / getSurfaceSoundSpeed ping"
  shows "\<exists>s0 rs0 ts0 s rs1 ts1 c.
           planarRayTrace_transducerLayer ping svp p T layerRays layerTravelTimes
             = Inr (s0, rs0, ts0)
         \<and> planarRayTrace_loop svp p T s0 rs0 ts0 = Inr (s, rs1, ts1)
         \<and> (if getLayerIndexForDepth svp (getTransducerDepth ping) < getSize svp
            then coeff (getSpeeds svp) (currentLayerIndex s)
            else Inr (getSurfaceSoundSpeed ping)) = Inr c
         \<and> R = cumulativeRayX s + c * (T - cumulativeRaytraceTime s) * (p * c)"
proof -
  from assms(1,2) obtain s0 rs0 ts0 where
    tl: "planarRayTrace_transducerLayer ping svp p T layerRays layerTravelTimes
           = Inr (s0, rs0, ts0)"
    unfolding assms(3,4)
    by (auto simp: planarRayTrace_def Let_def split: sum.splits)
  from assms(1,2) tl obtain s rs1 ts1 where
    loop: "planarRayTrace_loop svp p T s0 rs0 ts0 = Inr (s, rs1, ts1)"
    unfolding assms(3,4)
    by (auto simp: planarRayTrace_def Let_def split: sum.splits)
  from assms(1,2) tl loop obtain c where
    c: "(if getLayerIndexForDepth svp (getTransducerDepth ping) < getSize svp
         then coeff (getSpeeds svp) (currentLayerIndex s)
         else Inr (getSurfaceSoundSpeed ping)) = Inr c"
    unfolding assms(3,4)
    by (auto simp: planarRayTrace_def Let_def split: sum.splits)
  from assms(1,2) tl loop c
  have "R = cumulativeRayX s + c * (T - cumulativeRaytraceTime s) * (p * c)"
    unfolding assms(3,4)
    by (auto simp: planarRayTrace_def lastLayerPropagation_def Let_def split: prod.splits)
  with tl loop c show ?thesis
    by blast
qed

lemma planarRayTrace_range:
  assumes "svp_physical svp"
    and "getLayerIndexForDepth svp (getTransducerDepth ping) < getSize svp \<longrightarrow>
           getTransducerDepth ping
             \<le> getDepths svp ! unat (getLayerIndexForDepth svp (getTransducerDepth ping))"
    and "0 < getSurfaceSoundSpeed ping" and "0 \<le> getTwoWayTravelTime ping"
    and "launchVectorParameters s2c ping boresightMatrix imu2nav = Inr (sinAz, cosAz, beta0)"
    and "0 \<le> cos beta0"
    and "\<forall>c \<in> set (getSurfaceSoundSpeed ping # getSpeeds svp).
           cos beta0 / getSurfaceSoundSpeed ping * c \<le> 1"
    and "planarRayTrace s2c ping svp boresightMatrix imu2nav layerRays layerTravelTimes
           = Inr ((R, Z), rays', times')"
  shows "0 \<le> R"
proof -
  define T where "T = getTwoWayTravelTime ping / 2"
  define p where "p = cos beta0 / getSurfaceSoundSpeed ping"
  have T: "0 \<le> T"
    using assms(4) by (simp add: T_def)
  have p: "0 \<le> p"
    using assms(3,6) by (simp add: p_def)
  have surface: "p * getSurfaceSoundSpeed ping \<le> 1"
    and samples: "\<forall>c \<in> set (getSpeeds svp). p * c \<le> 1"
    using assms(7) by (simp_all add: p_def)
  from planarRayTrace_unfold [OF assms(5,8) T_def p_def] obtain s0 rs0 ts0 s rs1 ts1 c where
    tl: "planarRayTrace_transducerLayer ping svp p T layerRays layerTravelTimes
           = Inr (s0, rs0, ts0)"
    and loop: "planarRayTrace_loop svp p T s0 rs0 ts0 = Inr (s, rs1, ts1)"
    and c: "(if getLayerIndexForDepth svp (getTransducerDepth ping) < getSize svp
             then coeff (getSpeeds svp) (currentLayerIndex s)
             else Inr (getSurfaceSoundSpeed ping)) = Inr c"
    and R: "R = cumulativeRayX s + c * (T - cumulativeRaytraceTime s) * (p * c)"
    by blast
  have inv: "0 \<le> cumulativeRayX s \<and> cumulativeRaytraceTime s \<le> T"
    using planarRayTrace_loop_range [OF assms(1) p samples loop
        planarRayTrace_transducerLayer_range [OF assms(1,2,3) p surface T tl]] .
  have "0 < c"
  proof (cases "getLayerIndexForDepth svp (getTransducerDepth ping) < getSize svp")
    case True
    with c have "c \<in> set (getSpeeds svp)"
      by (simp add: coeff_in_set)
    with assms(1) show ?thesis
      by (simp add: svp_physical_def)
  next
    case False
    with c assms(3) show ?thesis
      by simp
  qed
  with inv p have "0 \<le> c * (T - cumulativeRaytraceTime s) * (p * c)"
    by simp
  with inv show ?thesis
    unfolding R by simp
qed

lemma planarRayTrace_vertical:
  assumes "launchVectorParameters s2c ping boresightMatrix imu2nav = Inr (sinAz, cosAz, beta0)"
    and "cos beta0 = 0"
    and "planarRayTrace s2c ping svp boresightMatrix imu2nav layerRays layerTravelTimes
           = Inr ((R, Z), rays', times')"
  shows "R = 0"
proof -
  have p: "cos beta0 / getSurfaceSoundSpeed ping = 0"
    using assms(2) by simp
  from planarRayTrace_unfold [OF assms(1,3) refl p [symmetric]] obtain s0 rs0 ts0 s rs1 ts1 c where
    tl: "planarRayTrace_transducerLayer ping svp 0 (getTwoWayTravelTime ping / 2)
           layerRays layerTravelTimes = Inr (s0, rs0, ts0)"
    and loop: "planarRayTrace_loop svp 0 (getTwoWayTravelTime ping / 2) s0 rs0 ts0
           = Inr (s, rs1, ts1)"
    and R: "R = cumulativeRayX s
           + c * (getTwoWayTravelTime ping / 2 - cumulativeRaytraceTime s) * (0 * c)"
    by blast
  from planarRayTrace_loop_vertical [OF loop planarRayTrace_transducerLayer_vertical [OF tl]] R
  show ?thesis
    by simp
qed

section \<open>The concrete inputs, evaluated\<close>

lemma sqrt_9_25: "sqrt (9 / 25) = 3 / 5"
  by (rule real_sqrt_unique) (simp_all add: power2_eq_square)

lemma sqrt_16_25: "sqrt (16 / 25) = 4 / 5"
  by (rule real_sqrt_unique) (simp_all add: power2_eq_square)

lemma example_ping_simps:
  "getAlongTrackAngle (example_ping d t) = 0"
  "getAcrossTrackAngle (example_ping d t) = 0"
  "getTwoWayTravelTime (example_ping d t) = t"
  "getSurfaceSoundSpeed (example_ping d t) = 1500"
  "getTransducerDepth (example_ping d t) = d"
  by (simp_all add: example_ping_def)

lemma example_svp_simps:
  "getDepths example_svp = [12, 24, 36]"
  "getSpeeds example_svp = [1500, 1500, 1500]"
  "getSoundSpeedGradient example_svp = [0, 0]"
  "getSize example_svp = 3"
  "getLayerIndexForDepth example_svp = example_lookup"
  by (simp_all add: example_svp_def)

lemma example_launchVectorNav:
  "launchVectorNav example_s2c (example_ping d t) identityMatrix tiltMatrix = (3 / 5, 0, 4 / 5)"
  by (simp add: launchVectorNav_def example_s2c_def example_ping_simps identityMatrix_def
      tiltMatrix_def matVec_def normalize_def)

lemma example_launchVectorNav_nadir:
  "launchVectorNav example_s2c (example_ping d t) identityMatrix identityMatrix = (0, 0, 1)"
  by (simp add: launchVectorNav_def example_s2c_def example_ping_simps identityMatrix_def
      matVec_def normalize_def)

lemma example_launchVectorParameters:
  "launchVectorParameters example_s2c (example_ping d t) identityMatrix tiltMatrix
     = Inr (1, 0, arcsin (4 / 5))"
  using launchVectorParameters_value [OF example_launchVectorNav, of d t]
  by (simp add: power2_eq_square sqrt_9_25)

lemma cos_example_beta0: "cos (arcsin (4 / 5 :: real)) = 3 / 5"
  by (simp add: cos_arcsin power2_eq_square sqrt_9_25)

lemma example_celerity:
  "constantCelerityRayTracing z0 z1 1500 (1 / 2500)
     = (z1 - z0, (z1 - z0) * 3 / 4, (z1 - z0) / 1200)"
  by (simp add: constantCelerityRayTracing_def Let_def power2_eq_square sqrt_16_25)

lemma example_lastLayer:
  "lastLayerPropagation t 1500 (1 / 2500) = (1200 * t, 900 * t)"
  by (simp add: lastLayerPropagation_def Let_def power2_eq_square sqrt_16_25)

lemma example_transducerLayerStep:
  "transducerLayerStep (example_ping 0 t) example_svp (1 / 2500) 0 = Inr (12, 9, 1 / 100)"
  by (simp add: transducerLayerStep_def example_ping_simps example_svp_simps coeff_def
      soundSpeedGradient_def gradientEpsilon_def example_celerity)

lemma example_profileLayerStep_0:
  "profileLayerStep example_svp (1 / 2500) 0 = Inr (12, 9, 1 / 100)"
  by (simp add: profileLayerStep_def example_svp_simps coeff_def gradientEpsilon_def
      example_celerity)

lemma example_planar_transducerLayer:
  "planarRayTrace_transducerLayer (example_ping 0 (1 / 25)) example_svp (1 / 2500) (1 / 50) rs ts
     = Inr (\<lparr>currentLayerIndex = 0, currentLayerRaytraceTime = 1 / 100,
             cumulativeRaytraceTime = 1 / 100, cumulativeRayX = 9, cumulativeRayZ = 12\<rparr>,
            rs @ [(9, 12)], ts @ [1 / 100])"
  by (simp add: planarRayTrace_transducerLayer_def example_ping_simps example_svp_simps
      example_lookup_def example_transducerLayerStep)

lemma example_planar_loop:
  "planarRayTrace_loop example_svp (1 / 2500) (1 / 50)
     \<lparr>currentLayerIndex = 0, currentLayerRaytraceTime = 1 / 100,
      cumulativeRaytraceTime = 1 / 100, cumulativeRayX = 9, cumulativeRayZ = 12\<rparr> rs ts
   = Inr (\<lparr>currentLayerIndex = 1, currentLayerRaytraceTime = 1 / 100,
           cumulativeRaytraceTime = 1 / 50, cumulativeRayX = 18, cumulativeRayZ = 24\<rparr>,
          rs @ [(9, 12)], ts @ [1 / 100])"
  apply (subst planarRayTrace_loop.simps)
  apply (simp add: example_profileLayerStep_0 example_svp_simps)
  apply (subst planarRayTrace_loop.simps)
  apply simp
  done

text \<open>
  A ping from the surface with a two-way travel time of 40 ms: the transducer layer and
  the first profile layer take 10 ms each, the second of them landing exactly on the
  one-way travel time of 20 ms.
\<close>

lemma example_planarRayTrace:
  "planarRayTrace example_s2c (example_ping 0 (1 / 25)) example_svp identityMatrix tiltMatrix rs ts
     = Inr ((18, 24), rs @ [(9, 12), (9, 12), (0, 0)], ts @ [1 / 100, 1 / 100, 0])"
  by (simp add: planarRayTrace_def example_launchVectorParameters cos_example_beta0
      example_ping_simps example_svp_simps example_planar_transducerLayer example_planar_loop
      example_lookup_def coeff_def example_lastLayer)

lemma example_rayTrace_transducerLayer:
  "rayTrace_transducerLayer (example_ping 0 (1 / 25)) example_svp (1 / 2500) (1 / 50)
     = Inr \<lparr>currentLayerIndex = 0, currentLayerRaytraceTime = 1 / 100,
            cumulativeRaytraceTime = 1 / 100, cumulativeRayX = 9, cumulativeRayZ = 12\<rparr>"
  by (simp add: rayTrace_transducerLayer_def example_ping_simps example_svp_simps
      example_lookup_def example_transducerLayerStep)


lemma example_svp_consistent: "svp_consistent example_svp"
  by (simp add: svp_consistent_def example_svp_simps)

lemma fast_svp_simps:
  "getDepths fast_svp = [12, 24]"
  "getSpeeds fast_svp = [3000, 3000]"
  "getSoundSpeedGradient fast_svp = [0]"
  "getSize fast_svp = 2"
  "getLayerIndexForDepth fast_svp d = (if d \<le> 12 then 0 else if d \<le> 24 then 1 else 2)"
  by (simp_all add: fast_svp_def)

lemma fast_svp_consistent: "svp_consistent fast_svp"
  by (simp add: svp_consistent_def fast_svp_simps)

lemma duplicate_svp_simps:
  "getDepths (duplicate_svp g) = [12, 24, 24, 36]"
  "getSpeeds (duplicate_svp g) = [1500, 1500, 1500, 1500]"
  "getSoundSpeedGradient (duplicate_svp g) = [0, g, 0]"
  "getSize (duplicate_svp g) = 4"
  "getLayerIndexForDepth (duplicate_svp g) d
     = (if d \<le> 12 then 0 else if d \<le> 24 then 1 else if d \<le> 36 then 3 else 4)"
  by (simp_all add: duplicate_svp_def)

lemma duplicate_svp_consistent: "svp_consistent (duplicate_svp g)"
  by (simp add: svp_consistent_def duplicate_svp_simps)

lemma duplicate_transducerLayerStep:
  "transducerLayerStep (example_ping 0 t) (duplicate_svp g) (1 / 2500) 0 = Inr (12, 9, 1 / 100)"
  by (simp add: transducerLayerStep_def example_ping_simps duplicate_svp_simps coeff_def
      soundSpeedGradient_def gradientEpsilon_def example_celerity)

lemma duplicate_profileLayerStep:
  "profileLayerStep (duplicate_svp 0) (1 / 2500) 0 = Inr (12, 9, 1 / 100)"
  "profileLayerStep (duplicate_svp 0) (1 / 2500) 1 = Inr (0, 0, 0)"
  "profileLayerStep (duplicate_svp 0) (1 / 2500) 2 = Inr (12, 9, 1 / 100)"
  by (simp_all add: profileLayerStep_def duplicate_svp_simps coeff_def gradientEpsilon_def
      example_celerity)

lemma duplicate_planar_transducerLayer:
  "planarRayTrace_transducerLayer (example_ping 0 (3 / 50)) (duplicate_svp 0) (1 / 2500) (3 / 100)
     rs ts
     = Inr (\<lparr>currentLayerIndex = 0, currentLayerRaytraceTime = 1 / 100,
             cumulativeRaytraceTime = 1 / 100, cumulativeRayX = 9, cumulativeRayZ = 12\<rparr>,
            rs @ [(9, 12)], ts @ [1 / 100])"
  by (simp add: planarRayTrace_transducerLayer_def example_ping_simps duplicate_svp_simps
      duplicate_transducerLayerStep)

lemma duplicate_planar_loop:
  "planarRayTrace_loop (duplicate_svp 0) (1 / 2500) (3 / 100)
     \<lparr>currentLayerIndex = 0, currentLayerRaytraceTime = 1 / 100,
      cumulativeRaytraceTime = 1 / 100, cumulativeRayX = 9, cumulativeRayZ = 12\<rparr> rs ts
   = Inr (\<lparr>currentLayerIndex = 3, currentLayerRaytraceTime = 1 / 100,
           cumulativeRaytraceTime = 3 / 100, cumulativeRayX = 27, cumulativeRayZ = 36\<rparr>,
          rs @ [(9, 12), (0, 0), (9, 12)], ts @ [1 / 100, 0, 1 / 100])"
  apply (subst planarRayTrace_loop.simps)
  apply (simp add: duplicate_profileLayerStep duplicate_svp_simps)
  apply (subst planarRayTrace_loop.simps)
  apply (simp add: duplicate_profileLayerStep duplicate_svp_simps)
  apply (subst planarRayTrace_loop.simps)
  apply (simp add: duplicate_profileLayerStep duplicate_svp_simps)
  apply (subst planarRayTrace_loop.simps)
  apply (simp add: duplicate_svp_simps)
  done

lemma duplicate_planarRayTrace:
  "planarRayTrace example_s2c (example_ping 0 (3 / 50)) (duplicate_svp 0) identityMatrix tiltMatrix
     rs ts
     = Inr ((27, 36), rs @ [(9, 12), (9, 12), (0, 0), (9, 12), (0, 0)],
            ts @ [1 / 100, 1 / 100, 0, 1 / 100, 0])"
  by (simp add: planarRayTrace_def example_launchVectorParameters cos_example_beta0
      example_ping_simps duplicate_svp_simps duplicate_planar_transducerLayer
      duplicate_planar_loop coeff_def example_lastLayer)

lemma fast_transducerLayerStep:
  "transducerLayerStep (example_ping 0 t) fast_svp (1 / 2500) 0
     = Inr (constantGradientRayTracing 1500 3000 125 (1 / 2500))"
  by (simp add: transducerLayerStep_def example_ping_simps fast_svp_simps coeff_def
      soundSpeedGradient_def gradientEpsilon_def)

lemma example_planarRayTrace_same_depth:
  "planarRayTrace example_s2c (example_ping 12 t) example_svp identityMatrix tiltMatrix rs ts
     = Inl (InvalidArgument 12 12)"
  by (simp add: planarRayTrace_def example_launchVectorParameters cos_example_beta0
      planarRayTrace_transducerLayer_def transducerLayerStep_def soundSpeedGradient_def
      example_ping_simps example_svp_simps example_lookup_def coeff_def)

lemma example_orthogonal:
  "orthogonalMatrix identityMatrix" "orthogonalMatrix tiltMatrix"
  by (simp_all add: orthogonalMatrix_def identityMatrix_def tiltMatrix_def power2_eq_square)

lemma example_svp_physical: "svp_physical example_svp"
  by (simp add: svp_physical_def example_svp_consistent example_svp_simps)

lemma deep_svp_simps:
  "getDepths deep_svp = [24, 36, 48]"
  "getSpeeds deep_svp = [1500, 1500, 1500]"
  "getSoundSpeedGradient deep_svp = [0, 0]"
  "getSize deep_svp = 3"
  "getLayerIndexForDepth deep_svp d
     = (if d \<le> 24 then 0 else if d \<le> 36 then 1 else if d \<le> 48 then 2 else 3)"
  by (simp_all add: deep_svp_def)

lemma deep_transducerLayerStep:
  "transducerLayerStep (example_ping 0 t) deep_svp (1 / 2500) 0 = Inr (24, 18, 1 / 50)"
  by (simp add: transducerLayerStep_def example_ping_simps deep_svp_simps coeff_def
      soundSpeedGradient_def gradientEpsilon_def example_celerity)

lemma deep_profileLayerStep_0:
  "profileLayerStep deep_svp (1 / 2500) 0 = Inr (12, 9, 1 / 100)"
  by (simp add: profileLayerStep_def deep_svp_simps coeff_def gradientEpsilon_def
      example_celerity)

lemma deep_planar_transducerLayer:
  "planarRayTrace_transducerLayer (example_ping 0 (3 / 50)) deep_svp (1 / 2500) (3 / 100) rs ts
     = Inr (\<lparr>currentLayerIndex = 0, currentLayerRaytraceTime = 1 / 50,
             cumulativeRaytraceTime = 1 / 50, cumulativeRayX = 18, cumulativeRayZ = 24\<rparr>,
            rs @ [(18, 24)], ts @ [1 / 50])"
  by (simp add: planarRayTrace_transducerLayer_def example_ping_simps deep_svp_simps
      deep_transducerLayerStep)

lemma deep_planar_loop:
  "planarRayTrace_loop deep_svp (1 / 2500) (3 / 100)
     \<lparr>currentLayerIndex = 0, currentLayerRaytraceTime = 1 / 50,
      cumulativeRaytraceTime = 1 / 50, cumulativeRayX = 18, cumulativeRayZ = 24\<rparr> rs ts
   = Inr (\<lparr>currentLayerIndex = 0, currentLayerRaytraceTime = 1 / 50,
           cumulativeRaytraceTime = 1 / 50, cumulativeRayX = 18, cumulativeRayZ = 24\<rparr>, rs, ts)"
  by (subst planarRayTrace_loop.simps) simp

lemma deep_planar_loop_iterations:
  "planarRayTrace_loop_iterations deep_svp (1 / 2500) (3 / 100)
     \<lparr>currentLayerIndex = 0, currentLayerRaytraceTime = 1 / 50,
      cumulativeRaytraceTime = 1 / 50, cumulativeRayX = 18, cumulativeRayZ = 24\<rparr> rs ts = 0"
  by (subst planarRayTrace_loop_iterations.simps) simp

lemma deep_planarRayTrace:
  "planarRayTrace example_s2c (example_ping 0 (3 / 50)) deep_svp identityMatrix tiltMatrix rs ts
     = Inr ((27, 36), rs @ [(18, 24), (9, 12)], ts @ [1 / 50, 1 / 100])"
  by (simp add: planarRayTrace_def example_launchVectorParameters cos_example_beta0
      example_ping_simps deep_svp_simps deep_planar_transducerLayer deep_planar_loop
      coeff_def example_lastLayer)

lemma example_planarRayTrace_tie:
  "planarRayTrace example_s2c (example_ping 0 (1 / 50)) example_svp identityMatrix tiltMatrix rs ts
     = Inr ((9, 12), rs @ [(9, 12), (0, 0)], ts @ [1 / 100, 0])"
proof -
  have tl: "planarRayTrace_transducerLayer (example_ping 0 (1 / 50)) example_svp (1 / 2500)
      (1 / 100) rs ts
     = Inr (\<lparr>currentLayerIndex = 0, currentLayerRaytraceTime = 1 / 100,
             cumulativeRaytraceTime = 1 / 100, cumulativeRayX = 9, cumulativeRayZ = 12\<rparr>,
            rs @ [(9, 12)], ts @ [1 / 100])"
    by (simp add: planarRayTrace_transducerLayer_def example_ping_simps example_svp_simps
        example_lookup_def example_transducerLayerStep)
  have lp: "planarRayTrace_loop example_svp (1 / 2500) (1 / 100)
     \<lparr>currentLayerIndex = 0, currentLayerRaytraceTime = 1 / 100,
      cumulativeRaytraceTime = 1 / 100, cumulativeRayX = 9, cumulativeRayZ = 12\<rparr> rs' ts'
   = Inr (\<lparr>currentLayerIndex = 0, currentLayerRaytraceTime = 1 / 100,
      cumulativeRaytraceTime = 1 / 100, cumulativeRayX = 9, cumulativeRayZ = 12\<rparr>, rs', ts')"
    for rs' ts'
    by (subst planarRayTrace_loop.simps) simp
  show ?thesis
    by (simp add: planarRayTrace_def example_launchVectorParameters cos_example_beta0
        example_ping_simps example_svp_simps tl lp example_lookup_def coeff_def
        example_lastLayer)
qed

section \<open>The claims\<close>

text \<open>
  C1. When planarRayTrace returns, the travel times it has appended to layerTravelTimes,
  the committed layers and the last partial layer together, add up to half the two-way
  travel time of the ping, exactly. Called with empty vectors, as an output parameter is,
  the sum of every entry of layerTravelTimes is the one-way travel time. rayTrace keeps
  no travel times: when it returns, planarRayTrace returns on the same inputs, with the
  layers that rayTrace has committed and with travel times of that sum.
\<close>

theorem planarRayTrace_time_conservation:
  "(\<forall>raytracedPing rays' times'.
      planarRayTrace s2c ping svp boresightMatrix imu2nav layerRays layerTravelTimes
        = Inr (raytracedPing, rays', times')
      \<longrightarrow> take (length layerTravelTimes) times' = layerTravelTimes
        \<and> sum_list (drop (length layerTravelTimes) times') = getTwoWayTravelTime ping / 2
        \<and> (layerTravelTimes = [] \<longrightarrow> sum_list times' = getTwoWayTravelTime ping / 2))
   \<and> (\<forall>v. rayTrace s2c ping svp boresightMatrix imu2nav = Inr v
      \<longrightarrow> (\<exists>raytracedPing rays' times'.
            planarRayTrace s2c ping svp boresightMatrix imu2nav [] []
              = Inr (raytracedPing, rays', times')
            \<and> sum_list times' = getTwoWayTravelTime ping / 2))"
proof (intro conjI allI impI)
  fix raytracedPing rays' times'
  assume "planarRayTrace s2c ping svp boresightMatrix imu2nav layerRays layerTravelTimes
        = Inr (raytracedPing, rays', times')"
  from planarRayTrace_result [OF this] obtain ts where
    ts: "times' = layerTravelTimes @ ts @ [getTwoWayTravelTime ping / 2 - sum_list ts]"
    by blast
  then show "take (length layerTravelTimes) times' = layerTravelTimes"
    and "sum_list (drop (length layerTravelTimes) times') = getTwoWayTravelTime ping / 2"
    by simp_all
  assume "layerTravelTimes = []"
  with ts show "sum_list times' = getTwoWayTravelTime ping / 2"
    by simp
next
  fix v
  assume ret: "rayTrace s2c ping svp boresightMatrix imu2nav = Inr v"
  obtain sinAz cosAz beta0 where
    lvp: "launchVectorParameters s2c ping boresightMatrix imu2nav = Inr (sinAz, cosAz, beta0)"
    using launchVectorParameters_returns by blast
  from ret rayTrace_planarRayTrace [OF lvp, of svp "[]" "[]"]
  obtain raytracedPing rays' times' where
    planar: "planarRayTrace s2c ping svp boresightMatrix imu2nav [] []
      = Inr (raytracedPing, rays', times')"
    by (cases "planarRayTrace s2c ping svp boresightMatrix imu2nav [] []") auto
  from planarRayTrace_result [OF planar] obtain ts where
    "times' = [] @ ts @ [getTwoWayTravelTime ping / 2 - sum_list ts]"
    by blast
  then have "sum_list times' = getTwoWayTravelTime ping / 2"
    by simp
  with planar show "\<exists>raytracedPing rays' times'.
            planarRayTrace s2c ping svp boresightMatrix imu2nav [] []
              = Inr (raytracedPing, rays', times')
            \<and> sum_list times' = getTwoWayTravelTime ping / 2"
    by blast
qed

theorem planarRayTrace_time_conservation_witness:
  "planarRayTrace example_s2c (example_ping 0 (1 / 25)) example_svp identityMatrix tiltMatrix [] []
     = Inr ((18, 24), [(9, 12), (9, 12), (0, 0)], [1 / 100, 1 / 100, 0])
   \<and> sum_list (drop (length ([] :: real list)) [1 / 100, 1 / 100, 0 :: real])
       = getTwoWayTravelTime (example_ping 0 (1 / 25)) / 2
   \<and> sum_list [1 / 100, 1 / 100, 0 :: real] = getTwoWayTravelTime (example_ping 0 (1 / 25)) / 2
   \<and> rayTrace example_s2c (example_ping 0 (1 / 25)) example_svp identityMatrix tiltMatrix
       = Inr (18, 0, 24)
   \<and> (\<exists>raytracedPing rays' times'.
        planarRayTrace example_s2c (example_ping 0 (1 / 25)) example_svp identityMatrix tiltMatrix
          [] [] = Inr (raytracedPing, rays', times')
        \<and> sum_list times' = getTwoWayTravelTime (example_ping 0 (1 / 25)) / 2)"
proof -
  have ret: "rayTrace example_s2c (example_ping 0 (1 / 25)) example_svp identityMatrix tiltMatrix
      = Inr (18, 0, 24)"
    using rayTrace_planarRayTrace [OF example_launchVectorParameters,
        of 0 "1 / 25" example_svp "[]" "[]"]
    by (simp add: example_planarRayTrace)
  note c1 = planarRayTrace_time_conservation [of example_s2c "example_ping 0 (1 / 25)"
      example_svp identityMatrix tiltMatrix "[]"]
  from c1 ret have "\<exists>raytracedPing rays' times'.
        planarRayTrace example_s2c (example_ping 0 (1 / 25)) example_svp identityMatrix tiltMatrix
          [] [] = Inr (raytracedPing, rays', times')
        \<and> sum_list times' = getTwoWayTravelTime (example_ping 0 (1 / 25)) / 2"
    by blast
  moreover from c1 example_planarRayTrace [of "[]" "[]"]
  have "sum_list [1 / 100, 1 / 100, 0 :: real]
      = getTwoWayTravelTime (example_ping 0 (1 / 25)) / 2"
    by (simp add: example_ping_simps)
  ultimately show ?thesis
    using ret example_planarRayTrace [of "[]" "[]"] by simp
qed

text \<open>
  C2. The orientation matrices are rotations, sonar2cartesian returns a vector other
  than zero (the spec has it return a unit vector), the profile is as the data model
  has it (depths strictly increasing, positive speeds, the gradients derived from the
  samples, a lookup that returns a sample at or below the transducer when it returns
  one), the surface sound speed is positive, the travel time is not negative, and the
  ray is nowhere horizontal: Snell's cosine \<open>snellConstant * c\<close> is below 1 at the
  transducer and at every sample. Then rayTrace raises what planarRayTrace raises, and
  when planarRayTrace returns the aggregate \<open>(R, Z)\<close>, rayTrace returns a vector whose
  third component is \<open>Z\<close> and whose two horizontal components have the Euclidean norm
  \<open>R\<close>. For a vertical launch vector the guard of launchVectorParameters makes both
  horizontal components 0, and the range is 0 as well: the Snell constant is 0, so a
  constant-celerity step has the range \<open>0 * deltaTravelTime * c\<close> and a
  constant-gradient step the range \<open>radiusOfCurvature * (1 - 1)\<close>, whatever the radius.
\<close>

theorem rayTrace_planarRayTrace_consistent:
  assumes "orthogonalMatrix boresightMatrix" and "orthogonalMatrix imu2nav"
    and "s2c (getAlongTrackAngle ping) (getAcrossTrackAngle ping) 1 \<noteq> (0, 0, 0)"
    and "svp_physical svp"
    and "getLayerIndexForDepth svp (getTransducerDepth ping) < getSize svp \<longrightarrow>
           getTransducerDepth ping
             \<le> getDepths svp ! unat (getLayerIndexForDepth svp (getTransducerDepth ping))"
    and "0 < getSurfaceSoundSpeed ping" and "0 \<le> getTwoWayTravelTime ping"
    and "launchVectorParameters s2c ping boresightMatrix imu2nav = Inr (sinAz, cosAz, beta0)"
    and "\<forall>c \<in> set (getSurfaceSoundSpeed ping # getSpeeds svp).
           cos beta0 / getSurfaceSoundSpeed ping * c < 1"
  shows "(\<forall>e. planarRayTrace s2c ping svp boresightMatrix imu2nav layerRays layerTravelTimes
               = Inl e
            \<longrightarrow> rayTrace s2c ping svp boresightMatrix imu2nav = Inl e)
       \<and> (\<forall>R Z rays' times'.
            planarRayTrace s2c ping svp boresightMatrix imu2nav layerRays layerTravelTimes
               = Inr ((R, Z), rays', times')
            \<longrightarrow> (\<exists>x y. rayTrace s2c ping svp boresightMatrix imu2nav = Inr (x, y, Z)
                   \<and> sqrt (x\<^sup>2 + y\<^sup>2) = R))"
proof -
  obtain v0 v1 v2 where nav: "launchVectorNav s2c ping boresightMatrix imu2nav = (v0, v1, v2)"
    by (metis prod_cases3)
  note unit = launchVectorNav_unit [OF assms(1,2,3) nav]
  have beta0: "beta0 = arcsin v2"
    using launchVectorParameters_value [OF nav] assms(8) by (simp split: if_splits)
  note norm = rayTrace_planarRayTrace_norm [OF nav, of svp layerRays layerTravelTimes]
  have domain: "\<forall>c \<in> set (getSurfaceSoundSpeed ping # getSpeeds svp).
      cos beta0 / getSurfaceSoundSpeed ping * c \<le> 1"
    using assms(9) by (simp add: less_imp_le)
  show ?thesis
  proof (intro conjI allI impI)
    fix e
    assume "planarRayTrace s2c ping svp boresightMatrix imu2nav layerRays layerTravelTimes
        = Inl e"
    with norm show "rayTrace s2c ping svp boresightMatrix imu2nav = Inl e"
      by blast
  next
    fix R Z rays' times'
    assume planar: "planarRayTrace s2c ping svp boresightMatrix imu2nav layerRays
        layerTravelTimes = Inr ((R, Z), rays', times')"
    with norm obtain x y where
      ret: "rayTrace s2c ping svp boresightMatrix imu2nav = Inr (x, y, Z)"
      and n: "sqrt (x\<^sup>2 + y\<^sup>2) = (if 0 < sqrt (v0\<^sup>2 + v1\<^sup>2) then \<bar>R\<bar> else 0)"
      by blast
    have "sqrt (x\<^sup>2 + y\<^sup>2) = R"
    proof (cases "0 < sqrt (v0\<^sup>2 + v1\<^sup>2)")
      case True
      have "0 \<le> cos beta0"
        unfolding beta0 using unit by (rule unit_grazing_cosine(1))
      from planarRayTrace_range [OF assms(4,5,6,7,8) this domain planar] n True
      show ?thesis
        by simp
    next
      case False
      moreover have "0 \<le> sqrt (v0\<^sup>2 + v1\<^sup>2)"
        by (intro real_sqrt_ge_zero add_nonneg_nonneg zero_le_power2)
      ultimately have "sqrt (v0\<^sup>2 + v1\<^sup>2) = 0"
        by linarith
      with unit have "cos beta0 = 0"
        unfolding beta0 by (rule unit_grazing_cosine(3))
      from planarRayTrace_vertical [OF assms(8) this planar] n False
      show ?thesis
        by simp
    qed
    with ret show "\<exists>x y. rayTrace s2c ping svp boresightMatrix imu2nav = Inr (x, y, Z)
        \<and> sqrt (x\<^sup>2 + y\<^sup>2) = R"
      by blast
  qed
qed

theorem rayTrace_planarRayTrace_consistent_witness:
  "orthogonalMatrix identityMatrix \<and> orthogonalMatrix tiltMatrix
   \<and> example_s2c 0 0 1 \<noteq> (0, 0, 0)
   \<and> launchVectorParameters example_s2c (example_ping 0 (1 / 25)) identityMatrix tiltMatrix
       = Inr (1, 0, arcsin (4 / 5))
   \<and> cos (arcsin (4 / 5 :: real)) / 1500 * 1500 < 1
   \<and> planarRayTrace example_s2c (example_ping 0 (1 / 25)) example_svp identityMatrix tiltMatrix
       [] [] = Inr ((18, 24), [(9, 12), (9, 12), (0, 0)], [1 / 100, 1 / 100, 0])
   \<and> (\<exists>x y. rayTrace example_s2c (example_ping 0 (1 / 25)) example_svp identityMatrix
              tiltMatrix = Inr (x, y, 24)
         \<and> sqrt (x\<^sup>2 + y\<^sup>2) = 18)
   \<and> planarRayTrace example_s2c (example_ping 12 0) example_svp identityMatrix tiltMatrix [] []
       = Inl (InvalidArgument 12 12)
   \<and> rayTrace example_s2c (example_ping 12 0) example_svp identityMatrix tiltMatrix
       = Inl (InvalidArgument 12 12)"
proof -
  have s2c: "example_s2c (getAlongTrackAngle (example_ping d t))
      (getAcrossTrackAngle (example_ping d t)) 1 \<noteq> (0, 0, 0)" for d t
    by (simp add: example_s2c_def)
  have lookup: "getLayerIndexForDepth example_svp (getTransducerDepth (example_ping d t))
        < getSize example_svp \<longrightarrow>
      getTransducerDepth (example_ping d t)
        \<le> getDepths example_svp
            ! unat (getLayerIndexForDepth example_svp (getTransducerDepth (example_ping d t)))"
    if "d = 0 \<or> d = 12" for d t
    using that by (auto simp: example_ping_simps example_svp_simps example_lookup_def)
  have speed: "0 < getSurfaceSoundSpeed (example_ping d t)" for d t
    by (simp add: example_ping_simps)
  have time: "0 \<le> getTwoWayTravelTime (example_ping d t)" if "0 \<le> t" for d t
    using that by (simp add: example_ping_simps)
  have domain: "\<forall>c \<in> set (getSurfaceSoundSpeed (example_ping d t) # getSpeeds example_svp).
      cos (arcsin (4 / 5)) / getSurfaceSoundSpeed (example_ping d t) * c < 1" for d t
    by (simp add: example_ping_simps example_svp_simps cos_example_beta0)
  from rayTrace_planarRayTrace_consistent [OF example_orthogonal s2c example_svp_physical
      lookup speed time example_launchVectorParameters domain, of 0 "1 / 25" "[]" "[]"]
    example_planarRayTrace [of "[]" "[]"]
  have returns: "\<exists>x y. rayTrace example_s2c (example_ping 0 (1 / 25)) example_svp identityMatrix
              tiltMatrix = Inr (x, y, 24)
         \<and> sqrt (x\<^sup>2 + y\<^sup>2) = 18"
    by simp
  from rayTrace_planarRayTrace_consistent [OF example_orthogonal s2c example_svp_physical
      lookup speed time example_launchVectorParameters domain, of 12 0 "[]" "[]"]
    example_planarRayTrace_same_depth [of 0 "[]" "[]"]
  have raises: "rayTrace example_s2c (example_ping 12 0) example_svp identityMatrix tiltMatrix
      = Inl (InvalidArgument 12 12)"
    by simp
  from returns raises show ?thesis
    using example_orthogonal example_launchVectorParameters [of 0 "1 / 25"]
      example_planarRayTrace [of "[]" "[]"] example_planarRayTrace_same_depth [of 0 "[]" "[]"]
    by (simp add: example_s2c_def cos_example_beta0)
qed

text \<open>
  C3. The commit tests are \<open>\<le>\<close>, and the transducer layer commits a step that lands
  exactly on the one-way travel time: from the surface, with a one-way travel time of
  10 ms, the step to the first sample at 12 m takes 10 ms, is committed, and the remaining
  time given to lastLayerPropagation is 0. The layer walk does not always: its while
  guard adds the travel time of the step before to the cumulative time that already
  holds it. With samples at 24 m, 36 m and 48 m and a one-way travel time of 30 ms the
  transducer layer takes 20 ms and is committed, the layer from 24 m to 36 m would take
  10 ms and land exactly on 30 ms, but the guard tests 20 ms + 20 ms, the body of the loop
  is never entered, and the trace ends with a remaining time of 10 ms.
\<close>

theorem layer_walk_guard_skips_tie:
  "planarRayTrace_transducerLayer (example_ping 0 (3 / 50)) deep_svp (1 / 2500) (3 / 100) [] []
     = Inr (\<lparr>currentLayerIndex = 0, currentLayerRaytraceTime = 1 / 50,
             cumulativeRaytraceTime = 1 / 50, cumulativeRayX = 18, cumulativeRayZ = 24\<rparr>,
            [(18, 24)], [1 / 50])
   \<and> profileLayerStep deep_svp (1 / 2500) 0 = Inr (12, 9, 1 / 100)
   \<and> (1 / 50 :: real) + 1 / 100 = getTwoWayTravelTime (example_ping 0 (3 / 50)) / 2
   \<and> planarRayTrace_loop_iterations deep_svp (1 / 2500) (3 / 100)
       \<lparr>currentLayerIndex = 0, currentLayerRaytraceTime = 1 / 50,
        cumulativeRaytraceTime = 1 / 50, cumulativeRayX = 18, cumulativeRayZ = 24\<rparr>
       [(18, 24)] [1 / 50] = 0
   \<and> planarRayTrace example_s2c (example_ping 0 (3 / 50)) deep_svp identityMatrix tiltMatrix
       [] []
     = Inr ((27, 36), [(18, 24), (9, 12)], [1 / 50, 1 / 100])
   \<and> rayTrace example_s2c (example_ping 0 (3 / 50)) deep_svp identityMatrix tiltMatrix
     = Inr (27, 0, 36)
   \<and> planarRayTrace example_s2c (example_ping 0 (1 / 50)) example_svp identityMatrix tiltMatrix
       [] []
     = Inr ((9, 12), [(9, 12), (0, 0)], [1 / 100, 0])"
  using rayTrace_planarRayTrace [OF example_launchVectorParameters,
      of 0 "3 / 50" deep_svp "[]" "[]"]
    deep_planar_transducerLayer [of "[]" "[]"] deep_planarRayTrace [of "[]" "[]"]
    example_planarRayTrace_tie [of "[]" "[]"]
  by (simp add: deep_profileLayerStep_0 deep_planar_loop_iterations example_ping_simps)

text \<open>
  C4. A profile with two adjacent samples at 24 m, walked from the surface: whatever
  gradient \<open>g\<close> the profile reports for the interval between them and whatever the travel
  time, rayTrace raises nothing. With a gradient of 0 and a one-way travel time of 30 ms
  the trace crosses the interval as a layer of no thickness, commits it with a segment
  \<open>(0, 0)\<close> and a travel time of 0, and returns.
\<close>

theorem duplicate_depth_not_raised:
  "\<not> isl (rayTrace example_s2c (example_ping 0 t) (duplicate_svp g) identityMatrix tiltMatrix)
   \<and> planarRayTrace example_s2c (example_ping 0 (3 / 50)) (duplicate_svp 0)
        identityMatrix tiltMatrix [] []
       = Inr ((27, 36), [(9, 12), (9, 12), (0, 0), (9, 12), (0, 0)],
              [1 / 100, 1 / 100, 0, 1 / 100, 0])
   \<and> rayTrace example_s2c (example_ping 0 (3 / 50)) (duplicate_svp 0) identityMatrix tiltMatrix
       = Inr (27, 0, 36)"
proof -
  have "rayTrace example_s2c (example_ping 0 t) (duplicate_svp g) identityMatrix tiltMatrix
      \<noteq> Inl e" for e
    using rayTrace_raises_iff [OF duplicate_svp_consistent [of g],
        of example_s2c "example_ping 0 t" identityMatrix tiltMatrix e]
    by (simp add: example_ping_simps duplicate_svp_simps)
  then have "\<not> isl (rayTrace example_s2c (example_ping 0 t) (duplicate_svp g)
      identityMatrix tiltMatrix)"
    by (auto simp: isl_def)
  moreover have "rayTrace example_s2c (example_ping 0 (3 / 50)) (duplicate_svp 0)
      identityMatrix tiltMatrix = Inr (27, 0, 36)"
    using rayTrace_planarRayTrace [OF example_launchVectorParameters,
        of 0 "3 / 50" "duplicate_svp 0" "[]" "[]"]
    by (simp add: duplicate_planarRayTrace)
  ultimately show ?thesis
    using duplicate_planarRayTrace [of "[]" "[]"] by simp
qed

text \<open>
  C5. When the lookup returns no index below the size of the profile (the transducer is
  deeper than every sample), for a profile of at least one sample and a non-zero surface
  sound speed: the body of the layer walk is never entered, and both functions return
  the last-layer propagation at the surface sound speed for the whole one-way travel
  time \<open>T\<close>, a range of \<open>c T cos beta0\<close> and a depth of \<open>c T |sin beta0|\<close>, which
  planarRayTrace appends as its only segment.
\<close>

theorem transducer_below_profile:
  assumes "\<not> getLayerIndexForDepth svp (getTransducerDepth ping) < getSize svp"
    and "getSize svp \<noteq> 0"
    and "getSurfaceSoundSpeed ping \<noteq> 0"
    and "launchVectorParameters s2c ping boresightMatrix imu2nav = Inr (sinAz, cosAz, beta0)"
    and "T = getTwoWayTravelTime ping / 2"
    and "c = getSurfaceSoundSpeed ping"
  shows "rayTrace s2c ping svp boresightMatrix imu2nav
           = Inr (c * T * cos beta0 * sinAz, c * T * cos beta0 * cosAz, c * T * \<bar>sin beta0\<bar>)
       \<and> planarRayTrace s2c ping svp boresightMatrix imu2nav layerRays layerTravelTimes
           = Inr ((c * T * cos beta0, c * T * \<bar>sin beta0\<bar>),
                  layerRays @ [(c * T * cos beta0, c * T * \<bar>sin beta0\<bar>)],
                  layerTravelTimes @ [T])
       \<and> rayTrace_loop_iterations svp (cos beta0 / c) T
            \<lparr>currentLayerIndex = getLayerIndexForDepth svp (getTransducerDepth ping),
             currentLayerRaytraceTime = 0, cumulativeRaytraceTime = 0,
             cumulativeRayX = 0, cumulativeRayZ = 0\<rparr> = 0"
proof -
  let ?s0 = "\<lparr>currentLayerIndex = getLayerIndexForDepth svp (getTransducerDepth ping),
             currentLayerRaytraceTime = 0, cumulativeRaytraceTime = 0,
             cumulativeRayX = 0, cumulativeRayZ = 0\<rparr>"
  let ?p = "cos beta0 / c"
  have noloop: "\<not> getLayerIndexForDepth svp (getTransducerDepth ping) < getSize svp - 1"
    using assms(1,2) by (rule not_below_last_layer)
  have tl: "planarRayTrace_transducerLayer ping svp ?p T layerRays layerTravelTimes
      = Inr (?s0, layerRays, layerTravelTimes)"
    using assms(1) by (simp add: planarRayTrace_transducerLayer_def)
  have lp: "planarRayTrace_loop svp ?p T ?s0 layerRays layerTravelTimes
      = Inr (?s0, layerRays, layerTravelTimes)"
    using noloop by (subst planarRayTrace_loop.simps) simp
  have ll: "lastLayerPropagation T c ?p = (c * T * \<bar>sin beta0\<bar>, c * T * cos beta0)"
    using assms(3,6) by (simp add: lastLayerPropagation_surface)
  have planar: "planarRayTrace s2c ping svp boresightMatrix imu2nav layerRays layerTravelTimes
           = Inr ((c * T * cos beta0, c * T * \<bar>sin beta0\<bar>),
                  layerRays @ [(c * T * cos beta0, c * T * \<bar>sin beta0\<bar>)],
                  layerTravelTimes @ [T])"
    using assms(1) tl lp ll
    by (simp add: planarRayTrace_def assms(4) assms(5) [symmetric] assms(6) [symmetric])
  have "rayTrace s2c ping svp boresightMatrix imu2nav
           = Inr (c * T * cos beta0 * sinAz, c * T * cos beta0 * cosAz, c * T * \<bar>sin beta0\<bar>)"
    using rayTrace_planarRayTrace [OF assms(4), of svp layerRays layerTravelTimes] planar
    by simp
  moreover have "rayTrace_loop_iterations svp ?p T ?s0 = 0"
    using noloop by (subst rayTrace_loop_iterations.simps) simp
  ultimately show ?thesis
    using planar by simp
qed

theorem transducer_below_profile_witness:
  "\<not> getLayerIndexForDepth example_svp (getTransducerDepth (example_ping 500 2))
       < getSize example_svp
   \<and> getSize example_svp \<noteq> 0
   \<and> getSurfaceSoundSpeed (example_ping 500 2) \<noteq> 0
   \<and> launchVectorParameters example_s2c (example_ping 500 2) identityMatrix tiltMatrix
       = Inr (1, 0, arcsin (4 / 5))
   \<and> rayTrace example_s2c (example_ping 500 2) example_svp identityMatrix tiltMatrix
       = Inr (900, 0, 1200)
   \<and> planarRayTrace example_s2c (example_ping 500 2) example_svp identityMatrix tiltMatrix [] []
       = Inr ((900, 1200), [(900, 1200)], [1])"
proof -
  have below: "\<not> getLayerIndexForDepth example_svp (getTransducerDepth (example_ping 500 2))
          < getSize example_svp"
    by (simp add: example_ping_simps example_svp_simps example_lookup_def)
  have size: "getSize example_svp \<noteq> 0"
    by (simp add: example_svp_simps)
  have speed: "getSurfaceSoundSpeed (example_ping 500 2) \<noteq> 0"
    by (simp add: example_ping_simps)
  have T: "(1 :: real) = getTwoWayTravelTime (example_ping 500 2) / 2"
    by (simp add: example_ping_simps)
  have c: "(1500 :: real) = getSurfaceSoundSpeed (example_ping 500 2)"
    by (simp add: example_ping_simps)
  have "rayTrace example_s2c (example_ping 500 2) example_svp identityMatrix tiltMatrix
       = Inr (900, 0, 1200)
   \<and> planarRayTrace example_s2c (example_ping 500 2) example_svp identityMatrix tiltMatrix [] []
       = Inr ((900, 1200), [(900, 1200)], [1])"
    using transducer_below_profile [OF below size speed example_launchVectorParameters T c,
        of "[]" "[]"]
    by (simp add: cos_example_beta0)
  with below size speed show ?thesis
    by (simp add: example_launchVectorParameters)
qed

text \<open>
  C6. On a profile whose vectors have the sizes it reports, a trace raises in one case
  only: the lookup returns an index inside the profile and the sample there has the depth
  of the transducer; the error is then the invalid argument of soundSpeedGradient with
  that depth twice. In every other case the trace returns a result, whatever the
  arguments of its square roots and logarithms are.
\<close>

theorem trace_raises_only_invalid_argument:
  assumes "svp_consistent svp"
  shows "(rayTrace s2c ping svp boresightMatrix imu2nav = Inl e
            \<longleftrightarrow> getLayerIndexForDepth svp (getTransducerDepth ping) < getSize svp
              \<and> getDepths svp ! unat (getLayerIndexForDepth svp (getTransducerDepth ping))
                  = getTransducerDepth ping
              \<and> e = InvalidArgument (getTransducerDepth ping) (getTransducerDepth ping))
       \<and> (planarRayTrace s2c ping svp boresightMatrix imu2nav layerRays layerTravelTimes = Inl e
            \<longleftrightarrow> getLayerIndexForDepth svp (getTransducerDepth ping) < getSize svp
              \<and> getDepths svp ! unat (getLayerIndexForDepth svp (getTransducerDepth ping))
                  = getTransducerDepth ping
              \<and> e = InvalidArgument (getTransducerDepth ping) (getTransducerDepth ping))"
  using rayTrace_raises_iff [OF assms] planarRayTrace_raises_iff [OF assms]
  by simp

theorem trace_raises_only_invalid_argument_counterexample:
  "cos (arcsin (4 / 5)) / getSurfaceSoundSpeed (example_ping 0 (1 / 25)) = 1 / 2500
   \<and> transducerLayerStep (example_ping 0 (1 / 25)) fast_svp (1 / 2500) 0
       = Inr (constantGradientRayTracing 1500 3000 125 (1 / 2500))
   \<and> 1 - (1 / 2500 * 3000 :: real)\<^sup>2 < 0
   \<and> \<not> isl (rayTrace example_s2c (example_ping 0 (1 / 25)) fast_svp identityMatrix tiltMatrix)
   \<and> \<not> isl (planarRayTrace example_s2c (example_ping 0 (1 / 25)) fast_svp
              identityMatrix tiltMatrix [] [])"
proof -
  have "rayTrace example_s2c (example_ping 0 (1 / 25)) fast_svp identityMatrix tiltMatrix
      \<noteq> Inl e" for e
    using rayTrace_raises_iff [OF fast_svp_consistent,
        of example_s2c "example_ping 0 (1 / 25)" identityMatrix tiltMatrix e]
    by (simp add: example_ping_simps fast_svp_simps)
  moreover have "planarRayTrace example_s2c (example_ping 0 (1 / 25)) fast_svp
      identityMatrix tiltMatrix [] [] \<noteq> Inl e" for e
    using planarRayTrace_raises_iff [OF fast_svp_consistent,
        of example_s2c "example_ping 0 (1 / 25)" identityMatrix tiltMatrix "[]" "[]" e]
    by (simp add: example_ping_simps fast_svp_simps)
  ultimately show ?thesis
    by (auto simp: isl_def cos_example_beta0 example_ping_simps fast_transducerLayerStep
        power2_eq_square)
qed

theorem trace_raises_only_invalid_argument_witness:
  "svp_consistent example_svp
   \<and> rayTrace example_s2c (example_ping 12 0) example_svp identityMatrix tiltMatrix
     = Inl (InvalidArgument 12 12)
   \<and> planarRayTrace example_s2c (example_ping 12 0) example_svp identityMatrix tiltMatrix [] []
     = Inl (InvalidArgument 12 12)
   \<and> svp_consistent fast_svp
   \<and> (\<forall>e. rayTrace example_s2c (example_ping 0 (1 / 25)) fast_svp identityMatrix tiltMatrix
            \<noteq> Inl e)"
proof -
  have "\<forall>e. rayTrace example_s2c (example_ping 0 (1 / 25)) fast_svp identityMatrix tiltMatrix
      \<noteq> Inl e"
  proof
    fix e
    show "rayTrace example_s2c (example_ping 0 (1 / 25)) fast_svp identityMatrix tiltMatrix
      \<noteq> Inl e"
      using trace_raises_only_invalid_argument [OF fast_svp_consistent,
        of example_s2c "example_ping 0 (1 / 25)" identityMatrix tiltMatrix e "[]" "[]"]
      by (simp add: example_ping_simps fast_svp_simps)
  qed
  then show ?thesis
    using trace_raises_only_invalid_argument [OF example_svp_consistent,
        of example_s2c "example_ping 12 0" identityMatrix tiltMatrix "InvalidArgument 12 12"
          "[]" "[]"]
    by (simp add: example_ping_simps example_svp_simps example_lookup_def
        example_svp_consistent fast_svp_consistent)
qed




text \<open>
  C8. Both functions are total: each while loop is a recursion that terminates on the
  distance from the current layer index to \<open>getSize() - 1\<close>, whatever the travel times
  are. Entered with the state the transducer layer leaves, whose layer index is the
  cutoff index, the body of the loop runs at most \<open>getSize() - 1\<close> minus the cutoff index
  times (no time when the cutoff index is beyond that), counting an iteration that leaves
  through break.
\<close>

theorem layer_walk_iterations:
  "(\<forall>s0. rayTrace_transducerLayer ping svp p t = Inr s0 \<longrightarrow>
       rayTrace_loop_iterations svp p t s0
         \<le> unat (getSize svp - 1) - unat (getLayerIndexForDepth svp (getTransducerDepth ping)))
   \<and> (\<forall>s0 rs0 ts0. planarRayTrace_transducerLayer ping svp p t rs ts = Inr (s0, rs0, ts0) \<longrightarrow>
       planarRayTrace_loop_iterations svp p t s0 rs0 ts0
         \<le> unat (getSize svp - 1) - unat (getLayerIndexForDepth svp (getTransducerDepth ping)))"
proof (intro conjI allI impI)
  fix s0
  assume "rayTrace_transducerLayer ping svp p t = Inr s0"
  from rayTrace_transducerLayer_index [OF this]
  show "rayTrace_loop_iterations svp p t s0
         \<le> unat (getSize svp - 1) - unat (getLayerIndexForDepth svp (getTransducerDepth ping))"
    using rayTrace_loop_iterations_bound [of svp p t s0] by simp
next
  fix s0 rs0 ts0
  assume "planarRayTrace_transducerLayer ping svp p t rs ts = Inr (s0, rs0, ts0)"
  from planarRayTrace_transducerLayer_appends [OF this]
  show "planarRayTrace_loop_iterations svp p t s0 rs0 ts0
         \<le> unat (getSize svp - 1) - unat (getLayerIndexForDepth svp (getTransducerDepth ping))"
    using planarRayTrace_loop_iterations_bound [of svp p t s0 rs0 ts0] by simp
qed

theorem layer_walk_iterations_witness:
  "rayTrace_transducerLayer (example_ping 0 (1 / 25)) example_svp (1 / 2500) (1 / 50)
     = Inr \<lparr>currentLayerIndex = 0, currentLayerRaytraceTime = 1 / 100,
            cumulativeRaytraceTime = 1 / 100, cumulativeRayX = 9, cumulativeRayZ = 12\<rparr>
   \<and> rayTrace_loop_iterations example_svp (1 / 2500) (1 / 50)
     \<lparr>currentLayerIndex = 0, currentLayerRaytraceTime = 1 / 100,
      cumulativeRaytraceTime = 1 / 100, cumulativeRayX = 9, cumulativeRayZ = 12\<rparr> \<le> 2
   \<and> planarRayTrace_transducerLayer (example_ping 0 (1 / 25)) example_svp (1 / 2500) (1 / 50)
       [] []
     = Inr (\<lparr>currentLayerIndex = 0, currentLayerRaytraceTime = 1 / 100,
             cumulativeRaytraceTime = 1 / 100, cumulativeRayX = 9, cumulativeRayZ = 12\<rparr>,
            [(9, 12)], [1 / 100])
   \<and> planarRayTrace_loop_iterations example_svp (1 / 2500) (1 / 50)
     \<lparr>currentLayerIndex = 0, currentLayerRaytraceTime = 1 / 100,
      cumulativeRaytraceTime = 1 / 100, cumulativeRayX = 9, cumulativeRayZ = 12\<rparr>
     [(9, 12)] [1 / 100] \<le> 2"
  using layer_walk_iterations [of "example_ping 0 (1 / 25)" example_svp "1 / 2500" "1 / 50" "[]" "[]"]
  by (simp add: example_rayTrace_transducerLayer example_planar_transducerLayer
      example_ping_simps example_svp_simps example_lookup_def)

text \<open>
  C9. launchVectorParameters never divides by a zero magnitude: it returns for every
  launch vector, and a quotient by zero would be the outcome \<open>DivisionByZero\<close>. When the
  horizontal part of the launch vector in the navigation frame has norm zero, where both
  quotients by the norm are divisions by zero, it returns zero for the sine and for the
  cosine of the azimuth; when the norm is positive it returns the first component over
  the norm and the second component over the norm, a sine and a cosine whose squares add
  up to one. The grazing angle is the arc sine of the third component in both cases.
\<close>

theorem launchVectorParameters_azimuth:
  assumes "launchVectorNav s2c ping boresightMatrix imu2nav = (v0, v1, v2)"
    and "vNorm = sqrt (v0\<^sup>2 + v1\<^sup>2)"
  shows "(\<forall>e. launchVectorParameters s2c ping boresightMatrix imu2nav \<noteq> Inl e)
       \<and> (vNorm = 0 \<longrightarrow>
            divide_double v0 vNorm = Inl DivisionByZero
          \<and> divide_double v1 vNorm = Inl DivisionByZero
          \<and> launchVectorParameters s2c ping boresightMatrix imu2nav = Inr (0, 0, arcsin v2))
       \<and> (0 < vNorm \<longrightarrow>
            launchVectorParameters s2c ping boresightMatrix imu2nav
              = Inr (v0 / vNorm, v1 / vNorm, arcsin v2)
          \<and> (v0 / vNorm)\<^sup>2 + (v1 / vNorm)\<^sup>2 = 1)
       \<and> (vNorm = 0 \<or> 0 < vNorm)"
proof -
  have nonneg: "0 \<le> vNorm"
    by (simp add: assms(2))
  have "launchVectorParameters s2c ping boresightMatrix imu2nav
      = Inr (if 0 < vNorm then (v0 / vNorm, v1 / vNorm, arcsin v2) else (0, 0, arcsin v2))"
    using assms
    by (simp add: launchVectorParameters_def divide_double_def Let_def)
  moreover have "(v0 / vNorm)\<^sup>2 + (v1 / vNorm)\<^sup>2 = 1" if "0 < vNorm"
    using that azimuth_unit [of v0 v1] by (simp add: assms(2))
  ultimately show ?thesis
    using nonneg by (auto simp: divide_double_def)
qed

theorem launchVectorParameters_azimuth_witness:
  "launchVectorNav example_s2c (example_ping 0 0) identityMatrix identityMatrix = (0, 0, 1)
   \<and> sqrt (0\<^sup>2 + 0\<^sup>2 :: real) = 0
   \<and> divide_double 0 (sqrt (0\<^sup>2 + 0\<^sup>2)) = Inl DivisionByZero
   \<and> launchVectorParameters example_s2c (example_ping 0 0) identityMatrix identityMatrix
     = Inr (0, 0, arcsin 1)
   \<and> launchVectorNav example_s2c (example_ping 0 0) identityMatrix tiltMatrix
     = (3 / 5, 0, 4 / 5)
   \<and> 0 < sqrt ((3 / 5)\<^sup>2 + 0\<^sup>2 :: real)
   \<and> launchVectorParameters example_s2c (example_ping 0 0) identityMatrix tiltMatrix
     = Inr (3 / 5 / sqrt ((3 / 5)\<^sup>2 + 0\<^sup>2), 0 / sqrt ((3 / 5)\<^sup>2 + 0\<^sup>2), arcsin (4 / 5))"
  using launchVectorParameters_azimuth [OF example_launchVectorNav_nadir refl, of 0 0]
    launchVectorParameters_azimuth [OF example_launchVectorNav refl, of 0 0]
  by (simp add: power2_eq_square sqrt_9_25 example_launchVectorNav_nadir
      example_launchVectorNav)

text \<open>
  C10. When planarRayTrace returns, layerRays and layerTravelTimes have kept what they
  held and have gained the same number of entries, at least one: the last entry of
  layerTravelTimes is the remaining travel time, the one-way travel time less the
  committed times before it, and the last entry of layerRays is the last-layer
  propagation for that time. Nothing requires the remaining time to be positive.
\<close>

theorem planarRayTrace_appends:
  assumes "planarRayTrace s2c ping svp boresightMatrix imu2nav layerRays layerTravelTimes
             = Inr (raytracedPing, rays', times')"
  shows "\<exists>rs ts. rays' = layerRays @ rs \<and> times' = layerTravelTimes @ ts
           \<and> length rs = length ts \<and> 0 < length ts
           \<and> last ts = getTwoWayTravelTime ping / 2 - sum_list (butlast ts)
           \<and> (\<exists>c sinAz cosAz beta0.
                 launchVectorParameters s2c ping boresightMatrix imu2nav
                   = Inr (sinAz, cosAz, beta0)
               \<and> lastLayerPropagation (last ts) c (cos beta0 / getSurfaceSoundSpeed ping)
                   = (snd (last rs), fst (last rs)))"
proof -
  from planarRayTrace_result [OF assms] obtain rs ts c dxf dzf sinAz cosAz beta0 where
    lvp: "launchVectorParameters s2c ping boresightMatrix imu2nav = Inr (sinAz, cosAz, beta0)"
    and r: "rays' = layerRays @ rs @ [(dxf, dzf)]"
      "times' = layerTravelTimes @ ts @ [getTwoWayTravelTime ping / 2 - sum_list ts]"
      "length rs = length ts"
      "lastLayerPropagation (getTwoWayTravelTime ping / 2 - sum_list ts) c
              (cos beta0 / getSurfaceSoundSpeed ping) = (dzf, dxf)"
    by blast
  have "\<exists>c sinAz cosAz beta0.
          launchVectorParameters s2c ping boresightMatrix imu2nav = Inr (sinAz, cosAz, beta0)
        \<and> lastLayerPropagation (getTwoWayTravelTime ping / 2 - sum_list ts) c
              (cos beta0 / getSurfaceSoundSpeed ping) = (dzf, dxf)"
    using lvp r(4) by blast
  with r(1,2,3) show ?thesis
    by (intro exI [of _ "rs @ [(dxf, dzf)]"]
        exI [of _ "ts @ [getTwoWayTravelTime ping / 2 - sum_list ts]"]) simp
qed

theorem planarRayTrace_appends_witness:
  "planarRayTrace example_s2c (example_ping 0 (1 / 25)) example_svp identityMatrix tiltMatrix [] []
     = Inr ((18, 24), [(9, 12), (9, 12), (0, 0)], [1 / 100, 1 / 100, 0])
   \<and> (\<exists>rs ts. [(9, 12), (9, 12), (0, 0)] = ([] :: Vector2d list) @ rs
      \<and> [1 / 100, 1 / 100, 0] = ([] :: real list) @ ts
      \<and> length rs = length ts \<and> 0 < length ts
      \<and> last ts = 0 \<and> last rs = (0, 0))"
proof -
  from planarRayTrace_appends [OF example_planarRayTrace [of "[]" "[]", simplified]]
  obtain rs ts where
    "[(9, 12), (9, 12), (0, 0)] = ([] :: Vector2d list) @ rs"
    "[1 / 100, 1 / 100, 0] = ([] :: real list) @ ts"
    "length rs = length ts" "0 < length ts"
    by blast
  then show ?thesis
    using example_planarRayTrace [of "[]" "[]"] by auto
qed

end
